theory Spec2Isabelle
  imports Main
begin

section \<open>Exceptions, requests and the environment\<close>

text \<open>
  The program is a Python script (\<^verbatim>\<open>DOGAPI.py\<close>) that talks to two HTTP services and
  writes one file. Python strings are modelled as HOL strings, one \<^typ>\<open>char\<close> per code
  point. Everything outside the program (the two services, the file system and the URL
  validation of the standard library) is a parameter of the model, collected in a record
  \<open>env\<close>; the services may answer in any way and may depend on a state \<open>'w\<close> of their own.

  Exceptions are values. The type \<open>exn\<close> lists the subclasses of Python's
  \<^verbatim>\<open>Exception\<close> that occur: the four \<^verbatim>\<open>requests\<close> exceptions that derive
  from \<^verbatim>\<open>RequestException\<close>, the built-in ones, and the two \<^verbatim>\<open>Exception(...)\<close>
  objects that \<^verbatim>\<open>_get_image_url\<close> raises itself.
\<close>

datatype exn =
    ConnectionError
  | Timeout
  | HTTPError
  | JSONDecodeError
  | KeyError
  | ValueError
  | AttributeError
  | OSError
  | ApiStatusError
  | ImageRequestError exn

fun is_RequestException :: "exn \<Rightarrow> bool" where
  "is_RequestException ConnectionError = True"
| "is_RequestException Timeout = True"
| "is_RequestException HTTPError = True"
| "is_RequestException JSONDecodeError = True"
| "is_RequestException _ = False"

text \<open>
  JSON values as Python holds them: \<^verbatim>\<open>None\<close>, booleans, integers, strings, lists and
  dicts with string keys (a dict as the list of its items, in insertion order). Numbers
  with a fraction or an exponent become Python floats and are outside the model.
\<close>

datatype json =
    JNull
  | JBool bool
  | JNumber int
  | JString string
  | JArray "json list"
  | JObject "(string \<times> json) list"

text \<open>Python's truth value of such a value (\<^verbatim>\<open>if v\<close>, \<^verbatim>\<open>not v\<close>).\<close>

fun truthy :: "json \<Rightarrow> bool" where
  "truthy JNull = False"
| "truthy (JBool b) = b"
| "truthy (JNumber n) = (n \<noteq> 0)"
| "truthy (JString s) = (s \<noteq> [])"
| "truthy (JArray vs) = (vs \<noteq> [])"
| "truthy (JObject kvs) = (kvs \<noteq> [])"

datatype http_method = GET | PUT | POST

record request =
  meth :: http_method
  url :: string
  headers :: "(string \<times> string) list"
  params :: "(string \<times> json) list"
  timeout :: nat

text \<open>
  A reply of the image service: the call raises, or a response arrives with a status code
  and a body. A body is either not JSON at all, or a JSON object whose \<^verbatim>\<open>"status"\<close> and
  \<^verbatim>\<open>"message"\<close> members may each be missing. The message of the catalog endpoint is a
  breed catalog; the message of an image endpoint is any JSON value, since the program
  passes it on unchecked.
\<close>

datatype 'm body = Not_JSON | Object "string option" "'m option"

datatype 'm reply = Raises exn | Response nat "'m body"

type_synonym catalog = "(string \<times> string list) list"

text \<open>
  What happens when \<^verbatim>\<open>json.dump\<close> writes to a file opened with mode \<^verbatim>\<open>"w"\<close>: the text is
  written, or \<^verbatim>\<open>open\<close> raises and the file is untouched, or writing raises after some
  prefix of the text has reached the file.
\<close>

datatype write_outcome = Written | Open_Error exn | Dump_Error exn nat

record 'w env =
  breeds_api :: "'w \<Rightarrow> request \<Rightarrow> catalog reply \<times> 'w"
  image_api :: "'w \<Rightarrow> request \<Rightarrow> json reply \<times> 'w"
  disk_api :: "'w \<Rightarrow> request \<Rightarrow> (exn + nat) \<times> 'w"
  fs_write :: "'w \<Rightarrow> string \<Rightarrow> string \<Rightarrow> write_outcome \<times> 'w"
  netloc_valid :: "string \<Rightarrow> bool"

text \<open>The lines the program prints, by kind (the texts themselves are presentation).\<close>

datatype message =
    Msg_Token_Empty
  | Msg_Breeds_Failed
  | Msg_Breed_Not_Found string
  | Msg_Folder_Failed
  | Msg_Done
  | Msg_API_Error exn
  | Msg_Save_Error exn

text \<open>
  One entry of \<^verbatim>\<open>self.results\<close>: a dict with these five keys. The image URL is the
  value the image endpoint returned, or \<^verbatim>\<open>None\<close> (\<^const>\<open>JNull\<close>).
\<close>

record upload_record =
  breed :: string
  sub_breed :: "string option"
  image_url :: json
  yandex_disk_path :: string
  status :: string

record 'w state =
  world :: 'w
  trace :: "request list"
  stdout :: "message list"
  files :: "string \<rightharpoonup> string"
  results :: "upload_record list"
  pbar_total :: "nat option"
  pbar_n :: nat
  sleeps :: nat

type_synonym ('w, 'a) outcome = "(exn + 'a) \<times> 'w state"

definition print :: "message \<Rightarrow> 'w state \<Rightarrow> 'w state" where
  "print m s = s\<lparr>stdout := stdout s @ [m]\<rparr>"

text \<open>
  \<^verbatim>\<open>try: ... except Exception: ...\<close>: every exception of the body reaches the handler.
\<close>

definition except_Exception ::
  "('w, 'a) outcome \<Rightarrow> (exn \<Rightarrow> 'w state \<Rightarrow> ('w, 'a) outcome) \<Rightarrow> ('w, 'a) outcome" where
  "except_Exception r handler = (case r of (Inl e, s) \<Rightarrow> handler e s | (Inr v, s) \<Rightarrow> (Inr v, s))"

text \<open>
  \<^verbatim>\<open>try: ... except requests.RequestException as e: ...\<close>: other exceptions pass through.
\<close>

definition except_RequestException ::
  "('w, 'a) outcome \<Rightarrow> (exn \<Rightarrow> 'w state \<Rightarrow> ('w, 'a) outcome) \<Rightarrow> ('w, 'a) outcome" where
  "except_RequestException r handler =
     (case r of
        (Inl e, s) \<Rightarrow> if is_RequestException e then handler e s else (Inl e, s)
      | (Inr v, s) \<Rightarrow> (Inr v, s))"

section \<open>Library functions on paths\<close>

text \<open>\<^verbatim>\<open>os.path.basename\<close> (posixpath): what follows the last \<open>/\<close>.\<close>

definition basename :: "string \<Rightarrow> string" where
  "basename p = rev (takeWhile (\<lambda>c. c \<noteq> CHR ''/'') (rev p))"

text \<open>
  \<^verbatim>\<open>os.path.dirname\<close> (posixpath): the part up to the last \<open>/\<close>, with trailing slashes
  removed unless it consists of slashes only.
\<close>

definition dirname :: "string \<Rightarrow> string" where
  "dirname p =
     (let head = rev (dropWhile (\<lambda>c. c \<noteq> CHR ''/'') (rev p))
      in if head \<noteq> [] \<and> head \<noteq> replicate (length head) (CHR ''/'')
         then rev (dropWhile (\<lambda>c. c = CHR ''/'') (rev head))
         else head)"

section \<open>The storage uploader\<close>

record uploader =
  token :: string
  auth_headers :: "(string \<times> string) list"

definition YandexDiskUploader :: "string \<Rightarrow> uploader" where
  "YandexDiskUploader tok = \<lparr>token = tok, auth_headers = [(''Authorization'', ''OAuth '' @ tok)]\<rparr>"

definition UPLOAD_URL :: string where
  "UPLOAD_URL = ''https://cloud-api.yandex.net/v1/disk/resources/upload''"

definition CREATE_FOLDER_URL :: string where
  "CREATE_FOLDER_URL = ''https://cloud-api.yandex.net/v1/disk/resources''"

text \<open>\<^verbatim>\<open>requests.put\<close> and \<^verbatim>\<open>requests.post\<close> to the storage service; the request is logged.\<close>

definition disk_request :: "'w env \<Rightarrow> request \<Rightarrow> 'w state \<Rightarrow> ('w, nat) outcome" where
  "disk_request env rq s =
     (case disk_api env (world s) rq of
        (r, w') \<Rightarrow> (r, s\<lparr>world := w', trace := trace s @ [rq]\<rparr>))"

definition create_folder_request :: "uploader \<Rightarrow> string \<Rightarrow> request" where
  "create_folder_request up path =
     \<lparr>meth = PUT, url = CREATE_FOLDER_URL, headers = auth_headers up,
      params = [(''path'', JString path)], timeout = 10\<rparr>"

definition create_folder :: "'w env \<Rightarrow> uploader \<Rightarrow> string \<Rightarrow> 'w state \<Rightarrow> ('w, bool) outcome" where
  "create_folder env up path s =
     except_Exception
       (case disk_request env (create_folder_request up path) s of
          (Inl e, s1) \<Rightarrow> (Inl e, s1)
        | (Inr status_code, s1) \<Rightarrow> (Inr (status_code = 201 \<or> status_code = 409), s1))
       (\<lambda>e s1. (Inr False, s1))"

definition upload_request :: "uploader \<Rightarrow> json \<Rightarrow> string \<Rightarrow> request" where
  "upload_request up img yandex_path =
     \<lparr>meth = POST, url = UPLOAD_URL, headers = auth_headers up,
      params = [(''path'', JString yandex_path), (''url'', img), (''overwrite'', JString ''true'')],
      timeout = 30\<rparr>"

definition upload_from_url ::
  "'w env \<Rightarrow> uploader \<Rightarrow> json \<Rightarrow> string \<Rightarrow> 'w state \<Rightarrow> ('w, bool) outcome" where
  "upload_from_url env up img yandex_path s =
     except_Exception
       (case disk_request env (upload_request up img yandex_path) s of
          (Inl e, s1) \<Rightarrow> (Inl e, s1)
        | (Inr status_code, s1) \<Rightarrow>
            if status_code = 202 then (Inr True, s1)
            else if status_code = 409 then
              (case create_folder env up (dirname yandex_path) s1 of
                 (Inl e, s2) \<Rightarrow> (Inl e, s2)
               | (Inr created, s2) \<Rightarrow>
                   if created then
                     (case disk_request env (upload_request up img yandex_path) s2 of
                        (Inl e, s3) \<Rightarrow> (Inl e, s3)
                      | (Inr status_code2, s3) \<Rightarrow> (Inr (status_code2 = 202), s3))
                   else (Inr False, s2))
            else (Inr False, s1))
       (\<lambda>e s1. (Inr False, s1))"

section \<open>URL parsing and the filename extractor\<close>

text \<open>
  \<^verbatim>\<open>urllib.parse.urlsplit\<close>, as far as scheme, network location and path go (query and
  fragment are cut off and dropped). The library raises \<^verbatim>\<open>ValueError\<close> in three places:
  when the network location has one square bracket without the other, when a bracketed
  host is not an IP literal, and when a non-ASCII network location fails the NFKC check.
  The first is written out; the other two are the library's own validation, taken as the
  parameter \<open>valid\<close> and consulted exactly where the library runs them.
\<close>

definition C0_CONTROL_OR_SPACE :: "char \<Rightarrow> bool" where
  "C0_CONTROL_OR_SPACE c = ((of_char c :: nat) \<le> 32)"

definition UNSAFE_URL_BYTE :: "char \<Rightarrow> bool" where
  "UNSAFE_URL_BYTE c = (c = CHR 0x09 \<or> c = CHR 0x0D \<or> c = CHR 0x0A)"

definition ascii_alpha :: "char \<Rightarrow> bool" where
  "ascii_alpha c = (let n = of_char c :: nat in (65 \<le> n \<and> n \<le> 90) \<or> (97 \<le> n \<and> n \<le> 122))"

definition ascii_digit :: "char \<Rightarrow> bool" where
  "ascii_digit c = (let n = of_char c :: nat in 48 \<le> n \<and> n \<le> 57)"

definition scheme_char :: "char \<Rightarrow> bool" where
  "scheme_char c = (ascii_alpha c \<or> ascii_digit c \<or> c = CHR ''+'' \<or> c = CHR ''-'' \<or> c = CHR ''.'')"

definition isascii :: "string \<Rightarrow> bool" where
  "isascii s = list_all (\<lambda>c. (of_char c :: nat) < 128) s"

text \<open>\<^verbatim>\<open>str.lower\<close> and \<^verbatim>\<open>str.strip\<close> on code points below 256.\<close>

definition lower_char :: "char \<Rightarrow> char" where
  "lower_char c =
     (let n = of_char c :: nat
      in if (65 \<le> n \<and> n \<le> 90) \<or> (192 \<le> n \<and> n \<le> 222 \<and> n \<noteq> 215) then char_of (n + 32) else c)"

definition py_lower :: "string \<Rightarrow> string" where
  "py_lower s = map lower_char s"

definition isspace :: "char \<Rightarrow> bool" where
  "isspace c =
     (let n = of_char c :: nat
      in (9 \<le> n \<and> n \<le> 13) \<or> (28 \<le> n \<and> n \<le> 32) \<or> n = 133 \<or> n = 160)"

definition py_strip :: "string \<Rightarrow> string" where
  "py_strip s = rev (dropWhile isspace (rev (dropWhile isspace s)))"

definition split_scheme :: "string \<Rightarrow> string \<times> string" where
  "split_scheme u =
     (let pre = takeWhile (\<lambda>c. c \<noteq> CHR '':'') u
      in if CHR '':'' \<in> set u
            \<and> (case pre of [] \<Rightarrow> False | c # _ \<Rightarrow> ascii_alpha c)
            \<and> list_all scheme_char pre
         then (py_lower pre, tl (dropWhile (\<lambda>c. c \<noteq> CHR '':'') u))
         else ([], u))"

definition netloc_delim :: "char \<Rightarrow> bool" where
  "netloc_delim c = (c = CHR ''/'' \<or> c = CHR ''?'' \<or> c = CHR ''#'')"

definition urlsplit :: "(string \<Rightarrow> bool) \<Rightarrow> string \<Rightarrow> exn + (string \<times> string \<times> string)" where
  "urlsplit valid u0 =
     (let u1 = filter (\<lambda>c. \<not> UNSAFE_URL_BYTE c) (dropWhile C0_CONTROL_OR_SPACE u0);
          (scheme, u2) = split_scheme u1;
          (netloc, u3) =
             (if take 2 u2 = ''//''
              then (takeWhile (\<lambda>c. \<not> netloc_delim c) (drop 2 u2),
                    dropWhile (\<lambda>c. \<not> netloc_delim c) (drop 2 u2))
              else ([], u2));
          lbr = (CHR ''['' \<in> set netloc);
          rbr = (CHR '']'' \<in> set netloc)
      in if (lbr \<and> \<not> rbr) \<or> (rbr \<and> \<not> lbr) then Inl ValueError
         else if lbr \<and> rbr \<and> \<not> valid netloc then Inl ValueError
         else if netloc \<noteq> [] \<and> \<not> isascii netloc \<and> \<not> valid netloc then Inl ValueError
         else Inr (scheme, netloc,
                   takeWhile (\<lambda>c. c \<noteq> CHR ''?'') (takeWhile (\<lambda>c. c \<noteq> CHR ''#'') u3)))"

definition uses_params :: "string list" where
  "uses_params = [[], ''ftp'', ''hdl'', ''prospero'', ''http'', ''imap'', ''https'', ''shttp'',
                  ''rtsp'', ''rtsps'', ''rtspu'', ''sip'', ''sips'', ''mms'', ''sftp'', ''tel'']"

text \<open>
  \<^verbatim>\<open>_splitparams\<close>, first component: the path up to the first \<open>;\<close> of its last segment.
\<close>

definition splitparams :: "string \<Rightarrow> string" where
  "splitparams p =
     (if CHR ''/'' \<in> set p
      then (if CHR '';'' \<in> set (basename p)
            then rev (dropWhile (\<lambda>c. c \<noteq> CHR ''/'') (rev p))
                 @ takeWhile (\<lambda>c. c \<noteq> CHR '';'') (basename p)
            else p)
      else takeWhile (\<lambda>c. c \<noteq> CHR '';'') p)"

text \<open>\<^verbatim>\<open>urlparse(url).path\<close>.\<close>

definition urlparse_path :: "(string \<Rightarrow> bool) \<Rightarrow> string \<Rightarrow> exn + string" where
  "urlparse_path valid u =
     (case urlsplit valid u of
        Inl e \<Rightarrow> Inl e
      | Inr (scheme, netloc, p) \<Rightarrow>
          Inr (if scheme \<in> set uses_params \<and> CHR '';'' \<in> set p then splitparams p else p))"

text \<open>
  \<^verbatim>\<open>urlparse(url).path\<close> for whatever the image endpoint returned. A string is parsed
  as above. For a value that is not a string the library decodes its argument as bytes:
  a false value (\<^verbatim>\<open>None\<close>, \<^verbatim>\<open>False\<close>, \<^verbatim>\<open>0\<close>, an empty list or dict) counts as empty and
  gives the empty path, any other value has no \<^verbatim>\<open>decode\<close> and raises
  \<^verbatim>\<open>AttributeError\<close>.
\<close>

definition urlparse_path_of :: "(string \<Rightarrow> bool) \<Rightarrow> json \<Rightarrow> exn + string" where
  "urlparse_path_of valid v =
     (case v of
        JString u \<Rightarrow> urlparse_path valid u
      | _ \<Rightarrow> if truthy v then Inl AttributeError else Inr [])"

definition get_filename_from_url :: "(string \<Rightarrow> bool) \<Rightarrow> json \<Rightarrow> exn + string" where
  "get_filename_from_url valid u =
     (case urlparse_path_of valid u of
        Inl e \<Rightarrow> Inl e
      | Inr p \<Rightarrow>
          (let filename = basename p
           in Inr (if filename = [] \<or> CHR ''.'' \<notin> set filename then ''image.jpg'' else filename)))"

section \<open>The breed catalog client\<close>

definition BASE_URL :: string where
  "BASE_URL = ''https://dog.ceo/api''"

text \<open>\<^verbatim>\<open>requests.get(url, timeout=t)\<close>; the request is logged.\<close>

definition get_request :: "string \<Rightarrow> nat \<Rightarrow> request" where
  "get_request u t = \<lparr>meth = GET, url = u, headers = [], params = [], timeout = t\<rparr>"

definition requests_get ::
  "('w \<Rightarrow> request \<Rightarrow> 'm reply \<times> 'w) \<Rightarrow> string \<Rightarrow> nat \<Rightarrow> 'w state \<Rightarrow> 'm reply \<times> 'w state" where
  "requests_get api u t s =
     (case api (world s) (get_request u t) of
        (r, w') \<Rightarrow> (r, s\<lparr>world := w', trace := trace s @ [get_request u t]\<rparr>))"

text \<open>\<^verbatim>\<open>Response.raise_for_status\<close>: client and server error codes raise.\<close>

definition raise_for_status :: "nat \<Rightarrow> exn option" where
  "raise_for_status code = (if 400 \<le> code \<and> code < 600 then Some HTTPError else None)"

text \<open>
  \<^verbatim>\<open>Response.json\<close>: a body that is not JSON raises the \<^verbatim>\<open>JSONDecodeError\<close> of
  \<^verbatim>\<open>requests\<close>, which derives from \<^verbatim>\<open>RequestException\<close>.
\<close>

definition response_json :: "'m body \<Rightarrow> exn + (string option \<times> 'm option)" where
  "response_json b = (case b of Not_JSON \<Rightarrow> Inl JSONDecodeError | Object st msg \<Rightarrow> Inr (st, msg))"

text \<open>\<^verbatim>\<open>data[key]\<close> on a dict: a missing key raises \<^verbatim>\<open>KeyError\<close>.\<close>

definition subscript :: "'a option \<Rightarrow> exn + 'a" where
  "subscript member = (case member of None \<Rightarrow> Inl KeyError | Some v \<Rightarrow> Inr v)"

definition get_image_url :: "'w env \<Rightarrow> string \<Rightarrow> 'w state \<Rightarrow> ('w, json) outcome" where
  "get_image_url env u s =
     except_RequestException
       (case requests_get (image_api env) u 10 s of
          (Raises e, s1) \<Rightarrow> (Inl e, s1)
        | (Response code b, s1) \<Rightarrow>
            (case raise_for_status code of
               Some e \<Rightarrow> (Inl e, s1)
             | None \<Rightarrow>
                 (case response_json b of
                    Inl e \<Rightarrow> (Inl e, s1)
                  | Inr (st, msg) \<Rightarrow>
                      (case subscript st of
                         Inl e \<Rightarrow> (Inl e, s1)
                       | Inr st' \<Rightarrow>
                           if st' = ''success''
                           then (case subscript msg of
                                   Inl e \<Rightarrow> (Inl e, s1)
                                 | Inr m \<Rightarrow> (Inr m, s1))
                           else (Inl ApiStatusError, s1)))))
       (\<lambda>e s1. (Inl (ImageRequestError e), s1))"

definition get_all_breeds :: "'w env \<Rightarrow> 'w state \<Rightarrow> ('w, catalog) outcome" where
  "get_all_breeds env s =
     except_RequestException
       (case requests_get (breeds_api env) (BASE_URL @ ''/breeds/list/all'') 10 s of
          (Raises e, s1) \<Rightarrow> (Inl e, s1)
        | (Response code b, s1) \<Rightarrow>
            (case raise_for_status code of
               Some e \<Rightarrow> (Inl e, s1)
             | None \<Rightarrow>
                 (case response_json b of
                    Inl e \<Rightarrow> (Inl e, s1)
                  | Inr (st, msg) \<Rightarrow>
                      (case subscript msg of
                         Inl e \<Rightarrow> (Inl e, s1)
                       | Inr m \<Rightarrow> (Inr m, s1)))))
       (\<lambda>e s1. (Inr [], print (Msg_API_Error e) s1))"

definition get_breed_image :: "'w env \<Rightarrow> string \<Rightarrow> 'w state \<Rightarrow> ('w, json) outcome" where
  "get_breed_image env b s = get_image_url env (BASE_URL @ ''/breed/'' @ b @ ''/images/random'') s"

definition get_sub_breed_image ::
  "'w env \<Rightarrow> string \<Rightarrow> string \<Rightarrow> 'w state \<Rightarrow> ('w, json) outcome" where
  "get_sub_breed_image env b sb s =
     get_image_url env (BASE_URL @ ''/breed/'' @ b @ ''/'' @ sb @ ''/images/random'') s"

section \<open>The result recorder\<close>

definition dquote :: char where
  "dquote = CHR 0x22"

definition backslash :: char where
  "backslash = CHR 0x5C"

definition hex_digit :: "nat \<Rightarrow> char" where
  "hex_digit n = (if n < 10 then char_of (48 + n) else char_of (87 + n))"

text \<open>
  \<^verbatim>\<open>json.encoder.encode_basestring\<close>, the string encoder chosen by
  \<^verbatim>\<open>ensure_ascii=False\<close>: only the quote, the backslash and the control characters
  below 0x20 are escaped; every other character, ASCII or not, is copied.
\<close>

definition escape_char :: "char \<Rightarrow> string" where
  "escape_char c =
     (if c = dquote then [backslash, dquote]
      else if c = backslash then [backslash, backslash]
      else if c = CHR 0x0A then [backslash, CHR ''n'']
      else if c = CHR 0x0D then [backslash, CHR ''r'']
      else if c = CHR 0x09 then [backslash, CHR ''t'']
      else if c = CHR 0x08 then [backslash, CHR ''b'']
      else if c = CHR 0x0C then [backslash, CHR ''f'']
      else if (of_char c :: nat) < 32
        then [backslash, CHR ''u'', CHR ''0'', CHR ''0'',
              hex_digit ((of_char c :: nat) div 16), hex_digit ((of_char c :: nat) mod 16)]
      else [c])"

definition encode_basestring :: "string \<Rightarrow> string" where
  "encode_basestring s = dquote # concat (map escape_char s) @ [dquote]"

text \<open>\<^verbatim>\<open>int.__repr__\<close>: the decimal digits, with a minus sign for a negative number.\<close>

fun digits :: "nat \<Rightarrow> string" where
  "digits n = (if n < 10 then [char_of (48 + n)] else digits (n div 10) @ [char_of (48 + n mod 10)])"

declare digits.simps [simp del]

definition int_repr :: "int \<Rightarrow> string" where
  "int_repr i = (if i < 0 then CHR ''-'' # digits (nat (- i)) else digits (nat i))"

definition newline_indent :: "nat \<Rightarrow> string" where
  "newline_indent lvl = CHR 0x0A # replicate (4 * lvl) (CHR '' '')"

text \<open>
  The text \<^verbatim>\<open>json.dump(..., indent=4)\<close> produces for a value at nesting depth \<open>lvl\<close>:
  an empty container is \<open>[]\<close> or \<open>{}\<close>; otherwise every item is on a line of its own,
  indented by four spaces per level, items separated by a comma, key and value by a colon
  and a space.
\<close>

function dumps :: "nat \<Rightarrow> json \<Rightarrow> string"
  and dumps_list :: "nat \<Rightarrow> json list \<Rightarrow> string"
  and dumps_dict :: "nat \<Rightarrow> (string \<times> json) list \<Rightarrow> string" where
  "dumps lvl JNull = ''null''"
| "dumps lvl (JBool b) = (if b then ''true'' else ''false'')"
| "dumps lvl (JNumber n) = int_repr n"
| "dumps lvl (JString s) = encode_basestring s"
| "dumps lvl (JArray vs) =
     (if vs = [] then ''[]''
      else ''['' @ newline_indent (Suc lvl) @ dumps_list (Suc lvl) vs @ newline_indent lvl @ '']'')"
| "dumps lvl (JObject kvs) =
     (if kvs = [] then ''{}''
      else ''{'' @ newline_indent (Suc lvl) @ dumps_dict (Suc lvl) kvs @ newline_indent lvl @ ''}'')"
| "dumps_list lvl [] = []"
| "dumps_list lvl (v # vs) =
     dumps lvl v @ (if vs = [] then [] else '','' @ newline_indent lvl @ dumps_list lvl vs)"
| "dumps_dict lvl [] = []"
| "dumps_dict lvl (kv # kvs) =
     encode_basestring (fst kv) @ '': '' @ dumps lvl (snd kv)
     @ (if kvs = [] then [] else '','' @ newline_indent lvl @ dumps_dict lvl kvs)"
  by pat_completeness auto
termination
  by (relation "measure (\<lambda>x. case x of
         Inl (lvl, v) \<Rightarrow> 2 * size v
       | Inr (Inl (lvl, vs)) \<Rightarrow> 2 * size_list size vs + 1
       | Inr (Inr (lvl, kvs)) \<Rightarrow> 2 * size_list (size_prod (\<lambda>x. 0) size) kvs + 1)")
     auto

text \<open>The text is written to the file in UTF-8 (code points below 256: one or two bytes).\<close>

definition utf8_char :: "char \<Rightarrow> string" where
  "utf8_char c =
     (let n = of_char c :: nat
      in if n < 128 then [c] else [char_of (192 + n div 64), char_of (128 + n mod 64)])"

definition utf8_encode :: "string \<Rightarrow> string" where
  "utf8_encode s = concat (map utf8_char s)"

definition to_json :: "upload_record \<Rightarrow> json" where
  "to_json r =
     JObject [(''breed'', JString (breed r)),
              (''sub_breed'', case sub_breed r of None \<Rightarrow> JNull | Some x \<Rightarrow> JString x),
              (''image_url'', image_url r),
              (''yandex_disk_path'', JString (yandex_disk_path r)),
              (''status'', JString (status r))]"

definition json_dump :: "upload_record list \<Rightarrow> string" where
  "json_dump rs = utf8_encode (dumps 0 (JArray (map to_json rs)))"

text \<open>
  \<^verbatim>\<open>ResultSaver.save\<close>: open the file for writing and dump the records into it; any
  exception is printed and swallowed.
\<close>

definition save :: "'w env \<Rightarrow> upload_record list \<Rightarrow> string \<Rightarrow> 'w state \<Rightarrow> ('w, unit) outcome" where
  "save env rs filename s =
     except_Exception
       (case fs_write env (world s) filename (json_dump rs) of
          (Written, w') \<Rightarrow>
            (Inr (), s\<lparr>world := w', files := (files s)(filename \<mapsto> json_dump rs)\<rparr>)
        | (Open_Error e, w') \<Rightarrow> (Inl e, s\<lparr>world := w'\<rparr>)
        | (Dump_Error e k, w') \<Rightarrow>
            (Inl e, s\<lparr>world := w', files := (files s)(filename \<mapsto> take k (json_dump rs))\<rparr>))
       (\<lambda>e s1. (Inr (), print (Msg_Save_Error e) s1))"

section \<open>Reading the result file back\<close>

text \<open>
  A reader of the file: UTF-8 decoding, then a JSON parser for documents made of
  \<^verbatim>\<open>null\<close>, booleans, integers, strings, arrays and objects, as \<^verbatim>\<open>json.load\<close> reads
  them. The parser is recursive descent; its first argument bounds the recursion depth.
\<close>

fun utf8_decode :: "string \<Rightarrow> string option" where
  "utf8_decode [] = Some []"
| "utf8_decode [b] = (if (of_char b :: nat) < 128 then Some [b] else None)"
| "utf8_decode (b # b2 # bs) =
     (if (of_char b :: nat) < 128 then map_option ((#) b) (utf8_decode (b2 # bs))
      else if (of_char b :: nat) \<in> {194, 195} \<and> 128 \<le> (of_char b2 :: nat) \<and> (of_char b2 :: nat) < 192
        then map_option ((#) (char_of (((of_char b :: nat) - 192) * 64 + ((of_char b2 :: nat) - 128))))
               (utf8_decode bs)
      else None)"

definition json_ws :: "char \<Rightarrow> bool" where
  "json_ws c = (c = CHR '' '' \<or> c = CHR 0x09 \<or> c = CHR 0x0A \<or> c = CHR 0x0D)"

definition skip_ws :: "string \<Rightarrow> string" where
  "skip_ws s = dropWhile json_ws s"

definition hex_val :: "char \<Rightarrow> nat option" where
  "hex_val c =
     (let n = of_char c :: nat
      in if 48 \<le> n \<and> n \<le> 57 then Some (n - 48)
         else if 97 \<le> n \<and> n \<le> 102 then Some (n - 87)
         else if 65 \<le> n \<and> n \<le> 70 then Some (n - 55)
         else None)"

definition hex4 :: "char \<Rightarrow> char \<Rightarrow> char \<Rightarrow> char \<Rightarrow> nat option" where
  "hex4 a b c d =
     (case (hex_val a, hex_val b, hex_val c, hex_val d) of
        (Some w, Some x, Some y, Some z) \<Rightarrow> Some (((w * 16 + x) * 16 + y) * 16 + z)
      | _ \<Rightarrow> None)"

definition unescape :: "char \<Rightarrow> char option" where
  "unescape e =
     (if e = dquote then Some dquote
      else if e = backslash then Some backslash
      else if e = CHR ''/'' then Some (CHR ''/'')
      else if e = CHR ''n'' then Some (CHR 0x0A)
      else if e = CHR ''r'' then Some (CHR 0x0D)
      else if e = CHR ''t'' then Some (CHR 0x09)
      else if e = CHR ''b'' then Some (CHR 0x08)
      else if e = CHR ''f'' then Some (CHR 0x0C)
      else None)"

text \<open>
  The characters of a string literal after its opening quote, up to the closing quote.
  An escaped code point of 256 or more has no \<^typ>\<open>char\<close> and is rejected.
\<close>

fun scan_string :: "string \<Rightarrow> (string \<times> string) option" where
  "scan_string [] = None"
| "scan_string (c # cs) =
     (if c = dquote then Some ([], cs)
      else if c = backslash then
        (case cs of
           [] \<Rightarrow> None
         | e # cs1 \<Rightarrow>
             if e = CHR ''u'' then
               (case cs1 of
                  h1 # h2 # h3 # h4 # cs2 \<Rightarrow>
                    (case hex4 h1 h2 h3 h4 of
                       None \<Rightarrow> None
                     | Some n \<Rightarrow>
                         if n < 256
                         then map_option (\<lambda>(x, r). (char_of n # x, r)) (scan_string cs2)
                         else None)
                | _ \<Rightarrow> None)
             else
               (case unescape e of
                  None \<Rightarrow> None
                | Some ch \<Rightarrow> map_option (\<lambda>(x, r). (ch # x, r)) (scan_string cs1)))
      else if (of_char c :: nat) < 32 then None
      else map_option (\<lambda>(x, r). (c # x, r)) (scan_string cs))"

text \<open>
  A number: an optional minus sign, then \<open>0\<close> or a digit string without a leading zero.
  What goes on with a fraction or an exponent is a float, which the model does not have.
\<close>

definition digits_value :: "string \<Rightarrow> nat" where
  "digits_value ds = foldl (\<lambda>a d. a * 10 + ((of_char d :: nat) - 48)) 0 ds"

definition scan_digits :: "string \<Rightarrow> (nat \<times> string) option" where
  "scan_digits s =
     (case s of
        [] \<Rightarrow> None
      | d # r \<Rightarrow>
          if d = CHR ''0'' then Some (0, r)
          else if ascii_digit d
            then Some (digits_value (d # takeWhile ascii_digit r), dropWhile ascii_digit r)
          else None)"

definition scan_number :: "string \<Rightarrow> (json \<times> string) option" where
  "scan_number s =
     (case (case s of
              [] \<Rightarrow> None
            | c # r \<Rightarrow>
                if c = CHR ''-'' then map_option (\<lambda>(n, r1). (- int n, r1)) (scan_digits r)
                else map_option (\<lambda>(n, r1). (int n, r1)) (scan_digits s)) of
        None \<Rightarrow> None
      | Some (i, r1) \<Rightarrow>
          (case r1 of
             [] \<Rightarrow> Some (JNumber i, r1)
           | c # r2 \<Rightarrow>
               if c = CHR ''.'' \<or> c = CHR ''e'' \<or> c = CHR ''E'' then None
               else Some (JNumber i, r1)))"

fun parse_value :: "nat \<Rightarrow> string \<Rightarrow> (json \<times> string) option"
  and parse_items :: "nat \<Rightarrow> string \<Rightarrow> (json list \<times> string) option"
  and parse_members :: "nat \<Rightarrow> string \<Rightarrow> ((string \<times> json) list \<times> string) option" where
  "parse_value 0 s = None"
| "parse_value (Suc n) s =
     (case skip_ws s of
        [] \<Rightarrow> None
      | c # r \<Rightarrow>
          if c = dquote then map_option (\<lambda>(x, r1). (JString x, r1)) (scan_string r)
          else if c = CHR ''['' then
            (case skip_ws r of
               [] \<Rightarrow> None
             | d # r1 \<Rightarrow>
                 if d = CHR '']'' then Some (JArray [], r1)
                 else map_option (\<lambda>(vs, r2). (JArray vs, r2)) (parse_items n r))
          else if c = CHR ''{'' then
            (case skip_ws r of
               [] \<Rightarrow> None
             | d # r1 \<Rightarrow>
                 if d = CHR ''}'' then Some (JObject [], r1)
                 else map_option (\<lambda>(kvs, r2). (JObject kvs, r2)) (parse_members n r))
          else if take 4 (c # r) = ''null'' then Some (JNull, drop 3 r)
          else if take 4 (c # r) = ''true'' then Some (JBool True, drop 3 r)
          else if take 5 (c # r) = ''false'' then Some (JBool False, drop 4 r)
          else scan_number (c # r))"
| "parse_items 0 s = None"
| "parse_items (Suc n) s =
     (case parse_value n s of
        None \<Rightarrow> None
      | Some (v, r) \<Rightarrow>
          (case skip_ws r of
             [] \<Rightarrow> None
           | c # r1 \<Rightarrow>
               if c = CHR '','' then map_option (\<lambda>(vs, r2). (v # vs, r2)) (parse_items n r1)
               else if c = CHR '']'' then Some ([v], r1)
               else None))"
| "parse_members 0 s = None"
| "parse_members (Suc n) s =
     (case skip_ws s of
        [] \<Rightarrow> None
      | q # r \<Rightarrow>
          if q = dquote then
            (case scan_string r of
               None \<Rightarrow> None
             | Some (k, r1) \<Rightarrow>
                 (case skip_ws r1 of
                    [] \<Rightarrow> None
                  | colon # r2 \<Rightarrow>
                      if colon = CHR '':'' then
                        (case parse_value n r2 of
                           None \<Rightarrow> None
                         | Some (v, r3) \<Rightarrow>
                             (case skip_ws r3 of
                                [] \<Rightarrow> None
                              | c # r4 \<Rightarrow>
                                  if c = CHR '','' then
                                    map_option (\<lambda>(kvs, r5). ((k, v) # kvs, r5)) (parse_members n r4)
                                  else if c = CHR ''}'' then Some ([(k, v)], r4)
                                  else None))
                      else None))
          else None)"

text \<open>
  \<^verbatim>\<open>json.loads\<close>: one value, surrounded by optional white space, and nothing else. The
  length of the text is more recursion depth than any document in it needs.
\<close>

definition json_loads :: "string \<Rightarrow> json option" where
  "json_loads s =
     (case parse_value (Suc (length s)) s of
        None \<Rightarrow> None
      | Some (v, r) \<Rightarrow> if skip_ws r = [] then Some v else None)"

definition json_load :: "string \<Rightarrow> json option" where
  "json_load bytes = (case utf8_decode bytes of None \<Rightarrow> None | Some text \<Rightarrow> json_loads text)"

section \<open>The orchestrator\<close>

definition append_result :: "upload_record \<Rightarrow> 'w state \<Rightarrow> 'w state" where
  "append_result r s = s\<lparr>results := results s @ [r]\<rparr>"

text \<open>\<^verbatim>\<open>finally: pbar.update(1); time.sleep(0.5)\<close>, run on every way out of the body.\<close>

definition finally_update :: "('w, 'a) outcome \<Rightarrow> ('w, 'a) outcome" where
  "finally_update r = (case r of (x, s) \<Rightarrow> (x, s\<lparr>pbar_n := pbar_n s + 1, sleeps := sleeps s + 1\<rparr>))"

definition FALLBACK :: string where
  "FALLBACK = ''image.jpg''"

definition process_breed_image ::
  "'w env \<Rightarrow> string \<Rightarrow> string \<Rightarrow> uploader \<Rightarrow> 'w state \<Rightarrow> ('w, unit) outcome" where
  "process_breed_image env b folder_path up s =
     finally_update
       (except_Exception
          (case get_breed_image env b s of
             (Inl e, s1) \<Rightarrow> (Inl e, s1)
           | (Inr img, s1) \<Rightarrow>
               (case get_filename_from_url (netloc_valid env) img of
                  Inl e \<Rightarrow> (Inl e, s1)
                | Inr filename \<Rightarrow>
                    (let yandex_path = folder_path @ b @ ''_'' @ filename
                     in case upload_from_url env up img yandex_path s1 of
                          (Inl e, s2) \<Rightarrow> (Inl e, s2)
                        | (Inr success, s2) \<Rightarrow>
                            (Inr (),
                             append_result
                               \<lparr>breed = b, sub_breed = None, image_url = img,
                                yandex_disk_path = yandex_path,
                                status = (if success then ''uploaded'' else ''failed'')\<rparr> s2))))
          (\<lambda>e s1.
             (Inr (),
              append_result
                \<lparr>breed = b, sub_breed = None, image_url = JNull,
                 yandex_disk_path = folder_path @ b @ ''_'' @ FALLBACK,
                 status = ''failed''\<rparr> s1)))"

definition process_sub_breed_image ::
  "'w env \<Rightarrow> string \<Rightarrow> string \<Rightarrow> string \<Rightarrow> uploader \<Rightarrow> 'w state \<Rightarrow> ('w, unit) outcome" where
  "process_sub_breed_image env b sb folder_path up s =
     finally_update
       (except_Exception
          (case get_sub_breed_image env b sb s of
             (Inl e, s1) \<Rightarrow> (Inl e, s1)
           | (Inr img, s1) \<Rightarrow>
               (case get_filename_from_url (netloc_valid env) img of
                  Inl e \<Rightarrow> (Inl e, s1)
                | Inr filename \<Rightarrow>
                    (let yandex_path = folder_path @ b @ ''_'' @ sb @ ''_'' @ filename
                     in case upload_from_url env up img yandex_path s1 of
                          (Inl e, s2) \<Rightarrow> (Inl e, s2)
                        | (Inr success, s2) \<Rightarrow>
                            (Inr (),
                             append_result
                               \<lparr>breed = b, sub_breed = Some sb, image_url = img,
                                yandex_disk_path = yandex_path,
                                status = (if success then ''uploaded'' else ''failed'')\<rparr> s2))))
          (\<lambda>e s1.
             (Inr (),
              append_result
                \<lparr>breed = b, sub_breed = Some sb, image_url = JNull,
                 yandex_disk_path = folder_path @ b @ ''_'' @ sb @ ''_'' @ FALLBACK,
                 status = ''failed''\<rparr> s1)))"

text \<open>\<^verbatim>\<open>for sub_breed in sub_breeds: self._process_sub_breed_image(...)\<close>.\<close>

fun process_sub_breeds ::
  "'w env \<Rightarrow> string \<Rightarrow> string list \<Rightarrow> string \<Rightarrow> uploader \<Rightarrow> 'w state \<Rightarrow> ('w, unit) outcome" where
  "process_sub_breeds env b [] folder_path up s = (Inr (), s)"
| "process_sub_breeds env b (sb # sbs) folder_path up s =
     (case process_sub_breed_image env b sb folder_path up s of
        (Inl e, s1) \<Rightarrow> (Inl e, s1)
      | (Inr u, s1) \<Rightarrow> process_sub_breeds env b sbs folder_path up s1)"

definition total_files :: "string list \<Rightarrow> nat" where
  "total_files sub_breeds = (if sub_breeds \<noteq> [] then 1 + length sub_breeds else 1)"

text \<open>
  \<^verbatim>\<open>DogImageUploader.run\<close>. The two lines typed at the prompts are arguments; the catalog
  is a dict, looked up with \<^const>\<open>map_of\<close>. The result is \<open>Inr ()\<close> when \<^verbatim>\<open>run\<close> returns and
  \<open>Inl e\<close> when an exception leaves it.
\<close>

definition run :: "'w env \<Rightarrow> string \<Rightarrow> string \<Rightarrow> 'w state \<Rightarrow> ('w, unit) outcome" where
  "run env breed_input token_input s =
     (let b = py_lower (py_strip breed_input);
          yd_token = py_strip token_input
      in if yd_token = [] then (Inr (), print Msg_Token_Empty s)
         else
           (case get_all_breeds env s of
              (Inl e, s1) \<Rightarrow> (Inl e, s1)
            | (Inr breeds, s1) \<Rightarrow>
                if breeds = [] then (Inr (), print Msg_Breeds_Failed s1)
                else
                  (case map_of breeds b of
                     None \<Rightarrow> (Inr (), print (Msg_Breed_Not_Found b) s1)
                   | Some sub_breeds \<Rightarrow>
                       (let yandex_folder = ''/'' @ b @ ''/'';
                            up = YandexDiskUploader yd_token
                        in case create_folder env up yandex_folder s1 of
                             (Inl e, s2) \<Rightarrow> (Inl e, s2)
                           | (Inr created, s2) \<Rightarrow>
                               if \<not> created then (Inr (), print Msg_Folder_Failed s2)
                               else
                                 (case process_breed_image env b yandex_folder up
                                         (s2\<lparr>pbar_total := Some (total_files sub_breeds),
                                             pbar_n := 0, results := []\<rparr>) of
                                    (Inl e, s3) \<Rightarrow> (Inl e, s3)
                                  | (Inr u, s3) \<Rightarrow>
                                      (case (if sub_breeds \<noteq> []
                                             then process_sub_breeds env b sub_breeds yandex_folder up s3
                                             else (Inr (), s3)) of
                                         (Inl e, s4) \<Rightarrow> (Inl e, s4)
                                       | (Inr u, s4) \<Rightarrow>
                                           (case save env (results s4) ''results.json'' s4 of
                                              (Inl e, s5) \<Rightarrow> (Inl e, s5)
                                            | (Inr u, s5) \<Rightarrow> (Inr (), print Msg_Done s5))))))))"

text \<open>\<^verbatim>\<open>main\<close>: a fresh \<^verbatim>\<open>DogImageUploader\<close>, whose result list is empty, runs once.\<close>

definition initial_state :: "'w \<Rightarrow> (string \<rightharpoonup> string) \<Rightarrow> 'w state" where
  "initial_state w fs =
     \<lparr>world = w, trace = [], stdout = [], files = fs, results = [],
      pbar_total = None, pbar_n = 0, sleeps = 0\<rparr>"

definition main :: "'w env \<Rightarrow> 'w \<Rightarrow> (string \<rightharpoonup> string) \<Rightarrow> string \<Rightarrow> string \<Rightarrow> ('w, unit) outcome" where
  "main env w fs breed_input token_input = run env breed_input token_input (initial_state w fs)"

section \<open>Specification notions and example environments\<close>

text \<open>The timeout each kind of request is configured with.\<close>

definition timeout_policy :: "request \<Rightarrow> bool" where
  "timeout_policy rq = (timeout rq = (if meth rq = POST then 30 else 10))"

text \<open>
  The file name a record's destination path ends with: the name extracted from its image
  URL (which is the fallback name when the record has none).
\<close>

definition file_of :: "(string \<Rightarrow> bool) \<Rightarrow> upload_record \<Rightarrow> string" where
  "file_of valid r =
     (case get_filename_from_url valid (image_url r) of Inl e \<Rightarrow> FALLBACK | Inr f \<Rightarrow> f)"

text \<open>
  What the record of an image slot looks like, for breed \<open>b\<close> and sub-breed \<open>sb\<close> (if
  any) under \<open>folder\<close>: its status is one of the two status words, the file name
  extraction accepts its image URL, and its path ends with the extracted name.
\<close>

definition stem :: "string \<Rightarrow> string \<Rightarrow> string option \<Rightarrow> string" where
  "stem folder b sb = folder @ b @ ''_'' @ (case sb of None \<Rightarrow> [] | Some x \<Rightarrow> x @ ''_'')"

definition slot_record ::
  "(string \<Rightarrow> bool) \<Rightarrow> string \<Rightarrow> string \<Rightarrow> string option \<Rightarrow> upload_record \<Rightarrow> bool" where
  "slot_record valid folder b sb r =
     (breed r = b \<and> sub_breed r = sb \<and>
      (status r = ''uploaded'' \<or> status r = ''failed'') \<and>
      (case get_filename_from_url valid (image_url r) of
         Inl e \<Rightarrow> False
       | Inr f \<Rightarrow> yandex_disk_path r = stem folder b sb @ f))"

text \<open>\<^verbatim>\<open>str.endswith\<close>.\<close>

definition endswith :: "string \<Rightarrow> string \<Rightarrow> bool" where
  "endswith s suffix = (length suffix \<le> length s \<and> drop (length s - length suffix) s = suffix)"

text \<open>
  Two states that differ only by network activity: the services' state and the requests
  logged, each new request with the timeout its kind is configured with.
\<close>

definition network_only :: "'w state \<Rightarrow> 'w state \<Rightarrow> bool" where
  "network_only s s' =
     (\<exists>w rqs. s' = s\<lparr>world := w, trace := trace s @ rqs\<rparr> \<and> list_all timeout_policy rqs)"

text \<open>
  An environment with fixed answers of the image service and a script of answers of the
  storage service, consumed one per request (the state counts the requests made to it).
\<close>

definition scripted_env ::
  "catalog reply \<Rightarrow> json reply \<Rightarrow> (exn + nat) list \<Rightarrow> write_outcome \<Rightarrow> nat env" where
  "scripted_env cat img disk wr =
     \<lparr>breeds_api = (\<lambda>w rq. (cat, w)),
      image_api = (\<lambda>w rq. (img, w)),
      disk_api = (\<lambda>w rq. (if w < length disk then disk ! w else Inl ConnectionError, Suc w)),
      fs_write = (\<lambda>w f c. (wr, w)),
      netloc_valid = (\<lambda>h. True)\<rparr>"

definition demo_catalog :: catalog where
  "demo_catalog = [(''akita'', []), (''hound'', [''afghan'', ''blood''])]"

definition demo_image :: json where
  "demo_image = JString ''https://images.dog.ceo/breeds/hound/x.jpg''"

definition ok_body :: "'m \<Rightarrow> 'm reply" where
  "ok_body m = Response 200 (Object (Some ''success'') (Some m))"

text \<open>The request for the catalog, and the bookkeeping at the end of an image slot.\<close>

definition finish_slot :: "upload_record \<Rightarrow> 'w state \<Rightarrow> 'w state" where
  "finish_slot r s = (append_result r s)\<lparr>pbar_n := pbar_n s + 1, sleeps := sleeps s + 1\<rparr>"

definition slots_done :: "upload_record list \<Rightarrow> 'w state \<Rightarrow> 'w state \<Rightarrow> bool" where
  "slots_done rs s s' =
     (\<exists>s1. network_only s s1 \<and>
        s' = s1\<lparr>results := results s @ rs, pbar_n := pbar_n s + length rs,
                sleeps := sleeps s + length rs\<rparr>)"

definition catalog_request :: request where
  "catalog_request = get_request (BASE_URL @ ''/breeds/list/all'') 10"

text \<open>
  A storage service on which the folder \<open>/hound\<close> does not exist yet (its state tells
  whether it does): an upload is answered 409 until a folder-create request for exactly
  \<open>/hound\<close> has been made, and 202 afterwards; a folder-create request for any other path
  is answered 404.
\<close>

definition hound_disk :: "bool env" where
  "hound_disk =
     \<lparr>breeds_api = (\<lambda>w rq. (Raises Timeout, w)),
      image_api = (\<lambda>w rq. (Raises Timeout, w)),
      disk_api = (\<lambda>w rq.
         if meth rq = PUT
         then (if params rq = [(''path'', JString ''/hound'')] then (Inr 201, True) else (Inr 404, w))
         else (if w then Inr 202 else Inr 409, w)),
      fs_write = (\<lambda>w f c. (Written, w)),
      netloc_valid = (\<lambda>h. True)\<rparr>"

definition record_invariant :: "upload_record \<Rightarrow> bool" where
  "record_invariant r =
     ((status r = ''uploaded'' \<or> status r = ''failed'') \<and>
      (image_url r = JNull \<longrightarrow> endswith (yandex_disk_path r) FALLBACK) \<and>
      (case image_url r of JString u \<Rightarrow> True | v \<Rightarrow> \<not> truthy v))"

definition lenient :: "string \<Rightarrow> bool" where
  "lenient h = True"

definition plain_name :: "string \<Rightarrow> bool" where
  "plain_name f =
     (f \<noteq> [] \<and> CHR ''.'' \<in> set f \<and> \<not> C0_CONTROL_OR_SPACE (hd f) \<and>
      (\<forall>c \<in> set f. \<not> UNSAFE_URL_BYTE c \<and> c \<noteq> CHR ''/'' \<and> c \<noteq> CHR ''?'' \<and> c \<noteq> CHR ''#''
                \<and> c \<noteq> CHR '':'' \<and> c \<noteq> CHR '';''))"

section \<open>Properties of the storage uploader\<close>

lemma create_folder_eq:
  "create_folder env up path s =
     (Inr (fst (disk_api env (world s) (create_folder_request up path)) \<in> {Inr 201, Inr 409}),
      s\<lparr>world := snd (disk_api env (world s) (create_folder_request up path)),
        trace := trace s @ [create_folder_request up path]\<rparr>)"
  by (auto simp: create_folder_def except_Exception_def disk_request_def
           split: prod.splits sum.splits)

text \<open>
  C5. For every path and every behaviour of the storage service, \<open>create_folder\<close> returns
  a boolean and never raises; the boolean is true exactly when the folder-create request
  is answered with status 201 or 409, so it is false for every other status code and
  whenever the request raises. It issues exactly one request, a PUT for that path.
\<close>

theorem create_folder_spec:
  "fst (create_folder env up path s) =
     Inr (fst (disk_api env (world s) (create_folder_request up path)) \<in> {Inr 201, Inr 409})
   \<and> trace (snd (create_folder env up path s)) = trace s @ [create_folder_request up path]
   \<and> meth (create_folder_request up path) = PUT
   \<and> params (create_folder_request up path) = [(''path'', JString path)]"
  by (simp add: create_folder_eq create_folder_request_def)

theorem create_folder_spec_witness:
  "fst (create_folder (scripted_env (Raises Timeout) (Raises Timeout) [Inr 409] Written)
          (YandexDiskUploader ''t'') ''/hound/'' (initial_state 0 Map.empty)) = Inr True
   \<and> fst (create_folder (scripted_env (Raises Timeout) (Raises Timeout) [Inr 404] Written)
          (YandexDiskUploader ''t'') ''/hound/'' (initial_state 0 Map.empty)) = Inr False
   \<and> fst (create_folder (scripted_env (Raises Timeout) (Raises Timeout) [Inl Timeout] Written)
          (YandexDiskUploader ''t'') ''/hound/'' (initial_state 0 Map.empty)) = Inr False"
  using create_folder_spec [of "scripted_env (Raises Timeout) (Raises Timeout) [Inr 409] Written"
          "YandexDiskUploader ''t''" "''/hound/''" "initial_state 0 Map.empty"]
        create_folder_spec [of "scripted_env (Raises Timeout) (Raises Timeout) [Inr 404] Written"
          "YandexDiskUploader ''t''" "''/hound/''" "initial_state 0 Map.empty"]
        create_folder_spec [of "scripted_env (Raises Timeout) (Raises Timeout) [Inl Timeout] Written"
          "YandexDiskUploader ''t''" "''/hound/''" "initial_state 0 Map.empty"]
  by (simp add: scripted_env_def initial_state_def)

lemma upload_from_url_eq:
  "upload_from_url env up img yandex_path s =
     (let rq = upload_request up img yandex_path;
          frq = create_folder_request up (dirname yandex_path);
          r1 = disk_api env (world s) rq;
          r2 = disk_api env (snd r1) frq;
          r3 = disk_api env (snd r2) rq
      in if fst r1 = Inr 409
         then (if fst r2 \<in> {Inr 201, Inr 409}
               then (Inr (fst r3 = Inr 202), s\<lparr>world := snd r3, trace := trace s @ [rq, frq, rq]\<rparr>)
               else (Inr False, s\<lparr>world := snd r2, trace := trace s @ [rq, frq]\<rparr>))
         else (Inr (fst r1 = Inr 202), s\<lparr>world := snd r1, trace := trace s @ [rq]\<rparr>))"
  by (auto simp: upload_from_url_def create_folder_eq except_Exception_def disk_request_def Let_def
           split: prod.splits sum.splits)

text \<open>The parent folder of a file path, as \<^const>\<open>dirname\<close> computes it.\<close>

lemma dirname_parent:
  assumes "CHR ''/'' \<notin> set name" "folder \<noteq> []" "last folder \<noteq> CHR ''/''"
  shows "dirname (folder @ ''/'' @ name) = folder"
proof -
  have tw: "dropWhile (\<lambda>c. c \<noteq> CHR ''/'') (rev name) = []"
    using assms(1) by auto
  have head: "rev (dropWhile (\<lambda>c. c \<noteq> CHR ''/'') (rev (folder @ ''/'' @ name))) = folder @ ''/''"
    using assms(1) by (simp add: dropWhile_append tw)
  have "last folder \<in> set (folder @ ''/'')" using assms(2) by simp
  then have notall: "folder @ ''/'' \<noteq> replicate (length (folder @ ''/'')) (CHR ''/'')"
    using assms(3) by (metis in_set_replicate)
  have "hd (rev folder) \<noteq> CHR ''/''" using assms(2,3) by (simp add: hd_rev)
  then have strip: "dropWhile (\<lambda>c. c = CHR ''/'') (rev folder) = rev folder"
    using assms(2) by (cases "rev folder") auto
  show ?thesis
    unfolding dirname_def head Let_def using notall strip by simp
qed

lemma dirname_root: "CHR ''/'' \<notin> set name \<Longrightarrow> dirname (''/'' @ name) = ''/''"
proof -
  assume a: "CHR ''/'' \<notin> set name"
  have tw: "dropWhile (\<lambda>c. c \<noteq> CHR ''/'') (rev name) = []"
    using a by auto
  have head: "rev (dropWhile (\<lambda>c. c \<noteq> CHR ''/'') (rev (''/'' @ name))) = ''/''"
    using a by (simp add: dropWhile_append tw)
  show ?thesis unfolding dirname_def head Let_def by simp
qed

text \<open>
  C1. For every source URL, destination path and behaviour of the storage service,
  \<open>upload_from_url\<close> returns a boolean and never raises. With \<open>r1\<close> the answer to the
  upload request, \<open>r2\<close> the answer to the folder-create request for the parent folder
  \<open>dirname yandex_path\<close> and \<open>r3\<close> the answer to the repeated upload request: the result
  is true exactly when \<open>r1\<close> is status 202, or \<open>r1\<close> is status 409, the folder creation
  succeeds (201 or 409) and \<open>r3\<close> is status 202. So every other status and every raised
  error, at any of the three steps, gives false. The requests issued are the upload
  alone; or, after a 409, the upload and the folder creation; or, when that succeeds, the
  upload, the folder creation and one more upload, never more. The folder-create request
  carries the parent folder as its path: for a destination \<open>folder/name\<close> that is
  \<open>folder\<close>, and for \<open>/name\<close> it is the root.
\<close>

theorem upload_from_url_spec:
  "(let rq = upload_request up img yandex_path;
        frq = create_folder_request up (dirname yandex_path);
        r1 = disk_api env (world s) rq;
        r2 = disk_api env (snd r1) frq;
        r3 = disk_api env (snd r2) rq;
        res = upload_from_url env up img yandex_path s
    in fst res = Inr (fst r1 = Inr 202
                      \<or> (fst r1 = Inr 409 \<and> fst r2 \<in> {Inr 201, Inr 409} \<and> fst r3 = Inr 202))
       \<and> trace (snd res) = trace s @
            (if fst r1 = Inr 409
             then (if fst r2 \<in> {Inr 201, Inr 409} then [rq, frq, rq] else [rq, frq])
             else [rq])
       \<and> meth rq = POST
       \<and> params rq = [(''path'', JString yandex_path), (''url'', img), (''overwrite'', JString ''true'')]
       \<and> meth frq = PUT
       \<and> params frq = [(''path'', JString (dirname yandex_path))])
   \<and> (CHR ''/'' \<notin> set name \<and> folder \<noteq> [] \<and> last folder \<noteq> CHR ''/''
        \<longrightarrow> dirname (folder @ ''/'' @ name) = folder)
   \<and> (CHR ''/'' \<notin> set name \<longrightarrow> dirname (''/'' @ name) = ''/'')"
  using dirname_parent [of name folder] dirname_root [of name]
  by (simp add: upload_from_url_eq Let_def upload_request_def create_folder_request_def)

theorem upload_from_url_spec_witness:
  "fst (upload_from_url hound_disk (YandexDiskUploader ''t'') demo_image ''/hound/hound_x.jpg''
          (initial_state False Map.empty)) = Inr True
   \<and> map meth (trace (snd (upload_from_url hound_disk (YandexDiskUploader ''t'') demo_image
          ''/hound/hound_x.jpg'' (initial_state False Map.empty)))) = [POST, PUT, POST]
   \<and> map params (trace (snd (upload_from_url hound_disk (YandexDiskUploader ''t'') demo_image
          ''/hound/hound_x.jpg'' (initial_state False Map.empty))))
      = [[(''path'', JString ''/hound/hound_x.jpg''), (''url'', demo_image), (''overwrite'', JString ''true'')],
         [(''path'', JString ''/hound'')],
         [(''path'', JString ''/hound/hound_x.jpg''), (''url'', demo_image), (''overwrite'', JString ''true'')]]
   \<and> dirname ''/hound/hound_x.jpg'' = ''/hound''
   \<and> fst (upload_from_url (scripted_env (Raises Timeout) (Raises Timeout) [Inr 409, Inr 201, Inr 500] Written)
          (YandexDiskUploader ''t'') demo_image ''/hound/hound_x.jpg'' (initial_state 0 Map.empty))
     = Inr False"
proof -
  have d: "dirname ''/hound/hound_x.jpg'' = ''/hound''"
    using upload_from_url_spec [of "YandexDiskUploader ''t''" demo_image "''/hound/hound_x.jpg''"
          hound_disk "initial_state False Map.empty" "''hound_x.jpg''" "''/hound''"]
    by simp
  show ?thesis
    using d
      upload_from_url_spec [of "YandexDiskUploader ''t''" demo_image "''/hound/hound_x.jpg''"
          hound_disk "initial_state False Map.empty" "''hound_x.jpg''" "''/hound''"]
      upload_from_url_spec [of "YandexDiskUploader ''t''" demo_image "''/hound/hound_x.jpg''"
          "scripted_env (Raises Timeout) (Raises Timeout) [Inr 409, Inr 201, Inr 500] Written"
          "initial_state 0 Map.empty" "''hound_x.jpg''" "''/hound''"]
    by (simp add: hound_disk_def scripted_env_def initial_state_def Let_def upload_request_def
          create_folder_request_def)
qed

section \<open>The effect of each operation on the state\<close>

lemma network_only_refl: "network_only s s"
  unfolding network_only_def by (rule exI [of _ "world s"], rule exI [of _ "[]"]) simp

lemma network_only_trans: "network_only s s1 \<Longrightarrow> network_only s1 s2 \<Longrightarrow> network_only s s2"
  unfolding network_only_def
proof (elim exE conjE)
  fix w rqs w' rqs'
  assume a: "s1 = s\<lparr>world := w, trace := trace s @ rqs\<rparr>" "list_all timeout_policy rqs"
    and b: "s2 = s1\<lparr>world := w', trace := trace s1 @ rqs'\<rparr>" "list_all timeout_policy rqs'"
  have "s2 = s\<lparr>world := w', trace := trace s @ (rqs @ rqs')\<rparr>" using a b by simp
  moreover have "list_all timeout_policy (rqs @ rqs')" using a b by simp
  ultimately show "\<exists>w rqs. s2 = s\<lparr>world := w, trace := trace s @ rqs\<rparr> \<and> list_all timeout_policy rqs"
    by blast
qed

lemma network_only_fields:
  assumes "network_only s s'"
  shows "results s' = results s" "files s' = files s" "stdout s' = stdout s"
        "pbar_n s' = pbar_n s" "pbar_total s' = pbar_total s" "sleeps s' = sleeps s"
  using assms unfolding network_only_def by auto

lemma network_onlyI:
  "list_all timeout_policy rqs \<Longrightarrow> network_only s (s\<lparr>world := w, trace := trace s @ rqs\<rparr>)"
  unfolding network_only_def by blast

lemma get_image_url_snd:
  "snd (get_image_url env u s) =
     s\<lparr>world := snd (image_api env (world s) (get_request u 10)),
       trace := trace s @ [get_request u 10]\<rparr>"
  by (auto simp: get_image_url_def except_RequestException_def requests_get_def
           split: prod.splits sum.splits reply.splits option.splits if_splits)

lemma get_image_url_network: "network_only s (snd (get_image_url env u s))"
  unfolding get_image_url_snd
  by (rule network_onlyI) (simp add: timeout_policy_def get_request_def)

lemma upload_from_url_network:
  "\<exists>ok s'. upload_from_url env up img p s = (Inr ok, s') \<and> network_only s s'"
  unfolding upload_from_url_eq Let_def
  by (auto intro!: network_onlyI simp: timeout_policy_def upload_request_def create_folder_request_def)

lemma create_folder_network:
  "network_only s (snd (create_folder env up p s))"
  unfolding create_folder_eq
  by (auto intro!: network_onlyI simp: timeout_policy_def create_folder_request_def)

lemma get_filename_falsy:
  "\<not> truthy v \<Longrightarrow> get_filename_from_url valid v = Inr FALLBACK"
  by (cases v)
     (simp_all add: get_filename_from_url_def urlparse_path_of_def urlparse_path_def urlsplit_def
        split_scheme_def basename_def FALLBACK_def uses_params_def)

lemma get_filename_null: "get_filename_from_url valid JNull = Inr FALLBACK"
  by (rule get_filename_falsy) simp

lemma slot_record_fallback:
  "slot_record valid folder b sb
     \<lparr>breed = b, sub_breed = sb, image_url = JNull,
      yandex_disk_path = stem folder b sb @ FALLBACK, status = ''failed''\<rparr>"
  by (simp add: slot_record_def get_filename_null)

lemma slot_record_uploaded:
  "get_filename_from_url valid img = Inr f \<Longrightarrow>
   slot_record valid folder b sb
     \<lparr>breed = b, sub_breed = sb, image_url = img,
      yandex_disk_path = stem folder b sb @ f,
      status = (if ok then ''uploaded'' else ''failed'')\<rparr>"
  by (simp add: slot_record_def)

lemma process_breed_image_slot:
  "\<exists>s1 r. network_only s s1 \<and> slot_record (netloc_valid env) folder b None r \<and>
      process_breed_image env b folder up s = (Inr (), finish_slot r s1)"
proof -
  obtain x s1 where g: "get_breed_image env b s = (x, s1)" by (cases "get_breed_image env b s")
  have "network_only s (snd (get_breed_image env b s))"
    unfolding get_breed_image_def by (rule get_image_url_network)
  then have n1: "network_only s s1" using g by simp
  let ?fb = "\<lparr>breed = b, sub_breed = None, image_url = JNull,
               yandex_disk_path = stem folder b None @ FALLBACK, status = ''failed''\<rparr>"
  show ?thesis
  proof (cases x)
    case (Inl e)
    then have "process_breed_image env b folder up s = (Inr (), finish_slot ?fb s1)"
      using g by (simp add: process_breed_image_def except_Exception_def finally_update_def
          finish_slot_def append_result_def stem_def)
    then show ?thesis using n1 slot_record_fallback by blast
  next
    case (Inr img)
    show ?thesis
    proof (cases "get_filename_from_url (netloc_valid env) img")
      case (Inl e)
      then have "process_breed_image env b folder up s = (Inr (), finish_slot ?fb s1)"
        using g Inr by (simp add: process_breed_image_def except_Exception_def finally_update_def
            finish_slot_def append_result_def stem_def)
      then show ?thesis using n1 slot_record_fallback by blast
    next
      case f: (Inr f)
      obtain ok s2 where u: "upload_from_url env up img (folder @ b @ ''_'' @ f) s1 = (Inr ok, s2)"
        and n2: "network_only s1 s2"
        using upload_from_url_network by blast
      let ?r = "\<lparr>breed = b, sub_breed = None, image_url = img,
                 yandex_disk_path = stem folder b None @ f,
                 status = (if ok then ''uploaded'' else ''failed'')\<rparr>"
      have "process_breed_image env b folder up s = (Inr (), finish_slot ?r s2)"
        using g Inr f u by (simp add: process_breed_image_def except_Exception_def
            finally_update_def finish_slot_def append_result_def stem_def)
      moreover have "network_only s s2" using n1 n2 by (rule network_only_trans)
      moreover have "slot_record (netloc_valid env) folder b None ?r"
        using f by (rule slot_record_uploaded)
      ultimately show ?thesis by blast
    qed
  qed
qed

lemma process_sub_breed_image_slot:
  "\<exists>s1 r. network_only s s1 \<and> slot_record (netloc_valid env) folder b (Some sb) r \<and>
      process_sub_breed_image env b sb folder up s = (Inr (), finish_slot r s1)"
proof -
  obtain x s1 where g: "get_sub_breed_image env b sb s = (x, s1)"
    by (cases "get_sub_breed_image env b sb s")
  have "network_only s (snd (get_sub_breed_image env b sb s))"
    unfolding get_sub_breed_image_def by (rule get_image_url_network)
  then have n1: "network_only s s1" using g by simp
  let ?fb = "\<lparr>breed = b, sub_breed = Some sb, image_url = JNull,
               yandex_disk_path = stem folder b (Some sb) @ FALLBACK, status = ''failed''\<rparr>"
  show ?thesis
  proof (cases x)
    case (Inl e)
    then have "process_sub_breed_image env b sb folder up s = (Inr (), finish_slot ?fb s1)"
      using g by (simp add: process_sub_breed_image_def except_Exception_def finally_update_def
          finish_slot_def append_result_def stem_def)
    then show ?thesis using n1 slot_record_fallback by blast
  next
    case (Inr img)
    show ?thesis
    proof (cases "get_filename_from_url (netloc_valid env) img")
      case (Inl e)
      then have "process_sub_breed_image env b sb folder up s = (Inr (), finish_slot ?fb s1)"
        using g Inr by (simp add: process_sub_breed_image_def except_Exception_def
            finally_update_def finish_slot_def append_result_def stem_def)
      then show ?thesis using n1 slot_record_fallback by blast
    next
      case f: (Inr f)
      obtain ok s2 where
        u: "upload_from_url env up img (folder @ b @ ''_'' @ sb @ ''_'' @ f) s1 = (Inr ok, s2)"
        and n2: "network_only s1 s2"
        using upload_from_url_network by blast
      let ?r = "\<lparr>breed = b, sub_breed = Some sb, image_url = img,
                 yandex_disk_path = stem folder b (Some sb) @ f,
                 status = (if ok then ''uploaded'' else ''failed'')\<rparr>"
      have "process_sub_breed_image env b sb folder up s = (Inr (), finish_slot ?r s2)"
        using g Inr f u by (simp add: process_sub_breed_image_def except_Exception_def
            finally_update_def finish_slot_def append_result_def stem_def)
      moreover have "network_only s s2" using n1 n2 by (rule network_only_trans)
      moreover have "slot_record (netloc_valid env) folder b (Some sb) ?r"
        using f by (rule slot_record_uploaded)
      ultimately show ?thesis by blast
    qed
  qed
qed

lemma slots_done_one: "network_only s s1 \<Longrightarrow> slots_done [r] s (finish_slot r s1)"
  unfolding slots_done_def finish_slot_def append_result_def
  by (rule exI [of _ s1]) (simp add: network_only_fields)

lemma slots_done_trans:
  assumes "slots_done rs s s1" "slots_done rs' s1 s2"
  shows "slots_done (rs @ rs') s s2"
proof -
  obtain t where t: "network_only s t"
    "s1 = t\<lparr>results := results s @ rs, pbar_n := pbar_n s + length rs, sleeps := sleeps s + length rs\<rparr>"
    using assms(1) unfolding slots_done_def by blast
  obtain t' where t': "network_only s1 t'"
    "s2 = t'\<lparr>results := results s1 @ rs', pbar_n := pbar_n s1 + length rs',
              sleeps := sleeps s1 + length rs'\<rparr>"
    using assms(2) unfolding slots_done_def by blast
  obtain w rqs where w: "t = s\<lparr>world := w, trace := trace s @ rqs\<rparr>" "list_all timeout_policy rqs"
    using t(1) unfolding network_only_def by blast
  obtain w' rqs' where w': "t' = s1\<lparr>world := w', trace := trace s1 @ rqs'\<rparr>"
    "list_all timeout_policy rqs'"
    using t'(1) unfolding network_only_def by blast
  have "network_only s (s\<lparr>world := w', trace := trace s @ (rqs @ rqs')\<rparr>)"
    by (rule network_onlyI) (simp add: w w')
  moreover have "s2 = (s\<lparr>world := w', trace := trace s @ (rqs @ rqs')\<rparr>)
      \<lparr>results := results s @ (rs @ rs'), pbar_n := pbar_n s + length (rs @ rs'),
       sleeps := sleeps s + length (rs @ rs')\<rparr>"
    using t(2) t'(2) w(1) w'(1) by simp
  ultimately show ?thesis unfolding slots_done_def by blast
qed

lemma process_sub_breeds_slots:
  "\<exists>rs s'. process_sub_breeds env b sbs folder up s = (Inr (), s') \<and> slots_done rs s s' \<and>
      list_all2 (slot_record (netloc_valid env) folder b) (map Some sbs) rs"
proof (induction sbs arbitrary: s)
  case Nil
  have "slots_done [] s s"
    unfolding slots_done_def by (rule exI [of _ s]) (simp add: network_only_refl)
  then show ?case by auto
next
  case (Cons sb sbs)
  obtain s1 r where 1: "network_only s s1" "slot_record (netloc_valid env) folder b (Some sb) r"
    "process_sub_breed_image env b sb folder up s = (Inr (), finish_slot r s1)"
    using process_sub_breed_image_slot by blast
  obtain rs s2 where 2: "process_sub_breeds env b sbs folder up (finish_slot r s1) = (Inr (), s2)"
    "slots_done rs (finish_slot r s1) s2"
    "list_all2 (slot_record (netloc_valid env) folder b) (map Some sbs) rs"
    using Cons.IH by blast
  have "slots_done ([r] @ rs) s s2"
    using slots_done_one [OF 1(1)] 2(2) by (rule slots_done_trans)
  then show ?case using 1 2 by auto
qed

lemma get_all_breeds_eq:
  "get_all_breeds env s =
     (let r = breeds_api env (world s) catalog_request;
          s1 = s\<lparr>world := snd r, trace := trace s @ [catalog_request]\<rparr>
      in case fst r of
           Raises e \<Rightarrow> if is_RequestException e then (Inr [], print (Msg_API_Error e) s1) else (Inl e, s1)
         | Response code body \<Rightarrow>
             if 400 \<le> code \<and> code < 600 then (Inr [], print (Msg_API_Error HTTPError) s1)
             else (case body of
                     Not_JSON \<Rightarrow> (Inr [], print (Msg_API_Error JSONDecodeError) s1)
                   | Object st None \<Rightarrow> (Inl KeyError, s1)
                   | Object st (Some m) \<Rightarrow> (Inr m, s1)))"
  by (auto simp: get_all_breeds_def except_RequestException_def requests_get_def Let_def
        catalog_request_def raise_for_status_def response_json_def subscript_def
      split: prod.splits sum.splits reply.splits option.splits body.splits)

lemma get_all_breeds_state:
  "\<exists>s1. network_only s s1 \<and> trace s1 = trace s @ [catalog_request] \<and>
     (snd (get_all_breeds env s) = s1 \<or> (\<exists>e. snd (get_all_breeds env s) = print (Msg_API_Error e) s1))"
proof -
  let ?s1 = "s\<lparr>world := snd (breeds_api env (world s) catalog_request),
               trace := trace s @ [catalog_request]\<rparr>"
  have "network_only s ?s1"
    by (rule network_onlyI) (simp add: timeout_policy_def catalog_request_def get_request_def)
  moreover have "trace ?s1 = trace s @ [catalog_request]" by simp
  moreover have "snd (get_all_breeds env s) = ?s1
      \<or> (\<exists>e. snd (get_all_breeds env s) = print (Msg_API_Error e) ?s1)"
    unfolding get_all_breeds_eq Let_def
    by (auto split: reply.splits body.splits option.splits)
  ultimately show ?thesis by blast
qed

lemma save_eq:
  "save env rs fn s =
     (case fst (fs_write env (world s) fn (json_dump rs)) of
        Written \<Rightarrow>
          (Inr (), s\<lparr>world := snd (fs_write env (world s) fn (json_dump rs)),
                     files := (files s)(fn \<mapsto> json_dump rs)\<rparr>)
      | Open_Error e \<Rightarrow>
          (Inr (), print (Msg_Save_Error e)
                     (s\<lparr>world := snd (fs_write env (world s) fn (json_dump rs))\<rparr>))
      | Dump_Error e k \<Rightarrow>
          (Inr (), print (Msg_Save_Error e)
                     (s\<lparr>world := snd (fs_write env (world s) fn (json_dump rs)),
                        files := (files s)(fn \<mapsto> take k (json_dump rs))\<rparr>)))"
  by (auto simp: save_def except_Exception_def split: prod.splits write_outcome.splits)

lemma save_fst: "fst (save env rs fn s) = Inr ()"
  by (simp add: save_eq split: write_outcome.splits)

lemma save_fields:
  "trace (snd (save env rs fn s)) = trace s" "results (snd (save env rs fn s)) = results s"
  "pbar_total (snd (save env rs fn s)) = pbar_total s" "pbar_n (snd (save env rs fn s)) = pbar_n s"
  by (simp_all add: save_eq print_def split: write_outcome.splits)

lemma run_success:
  assumes tok: "py_strip ti \<noteq> []"
    and cat: "get_all_breeds env s = (Inr breeds, s1)"
    and look: "map_of breeds (py_lower (py_strip bi)) = Some subs"
    and fold: "create_folder env (YandexDiskUploader (py_strip ti))
                 (''/'' @ py_lower (py_strip bi) @ ''/'') s1 = (Inr True, s2)"
  shows "\<exists>rs s4.
      list_all2 (slot_record (netloc_valid env) (''/'' @ py_lower (py_strip bi) @ ''/'')
                   (py_lower (py_strip bi))) (None # map Some subs) rs
      \<and> slots_done rs (s2\<lparr>pbar_total := Some (total_files subs), pbar_n := 0, results := []\<rparr>) s4
      \<and> run env bi ti s = (Inr (), print Msg_Done (snd (save env rs ''results.json'' s4)))"
proof -
  let ?b = "py_lower (py_strip bi)"
  let ?folder = "''/'' @ ?b @ ''/''"
  let ?up = "YandexDiskUploader (py_strip ti)"
  let ?s2 = "s2\<lparr>pbar_total := Some (total_files subs), pbar_n := 0, results := []\<rparr>"
  have ne: "breeds \<noteq> []" using look by auto
  obtain t r where 1: "network_only ?s2 t" "slot_record (netloc_valid env) ?folder ?b None r"
    "process_breed_image env ?b ?folder ?up ?s2 = (Inr (), finish_slot r t)"
    using process_breed_image_slot by blast
  obtain rs s4 where 2: "process_sub_breeds env ?b subs ?folder ?up (finish_slot r t) = (Inr (), s4)"
    "slots_done rs (finish_slot r t) s4"
    "list_all2 (slot_record (netloc_valid env) ?folder ?b) (map Some subs) rs"
    using process_sub_breeds_slots by blast
  have sd: "slots_done ([r] @ rs) ?s2 s4"
    using slots_done_one [OF 1(1)] 2(2) by (rule slots_done_trans)
  then have res: "results s4 = r # rs"
    unfolding slots_done_def by (auto simp: network_only_fields)
  have loop: "(if subs \<noteq> [] then process_sub_breeds env ?b subs ?folder ?up (finish_slot r t)
               else (Inr (), finish_slot r t)) = (Inr (), s4)"
    using 2(1) by (cases subs) auto
  obtain s5 where sv: "save env (r # rs) ''results.json'' s4 = (Inr (), s5)"
    using save_fst [of env "r # rs" "''results.json''" s4]
    by (cases "save env (r # rs) ''results.json'' s4") auto
  have "run env bi ti s = (Inr (), print Msg_Done s5)"
    unfolding run_def Let_def using tok cat look fold ne 1(3) loop sv res by simp
  moreover have "list_all2 (slot_record (netloc_valid env) ?folder ?b) (None # map Some subs) (r # rs)"
    using 1(2) 2(3) by simp
  ultimately show ?thesis using sd sv by (intro exI [of _ "r # rs"] exI [of _ s4]) simp
qed

lemma slots_done_fields:
  assumes "slots_done rs s s'"
  shows "results s' = results s @ rs" "files s' = files s" "stdout s' = stdout s"
    "pbar_n s' = pbar_n s + length rs" "pbar_total s' = pbar_total s"
    "\<exists>rqs. trace s' = trace s @ rqs \<and> list_all timeout_policy rqs"
  using assms unfolding slots_done_def network_only_def by auto

lemma run_success_fields:
  assumes tok: "py_strip ti \<noteq> []"
    and cat: "get_all_breeds env s = (Inr breeds, s1)"
    and look: "map_of breeds (py_lower (py_strip bi)) = Some subs"
    and fold: "create_folder env (YandexDiskUploader (py_strip ti))
                 (''/'' @ py_lower (py_strip bi) @ ''/'') s1 = (Inr True, s2)"
  shows "fst (run env bi ti s) = Inr ()
    \<and> list_all2 (slot_record (netloc_valid env) (''/'' @ py_lower (py_strip bi) @ ''/'')
                   (py_lower (py_strip bi))) (None # map Some subs) (results (snd (run env bi ti s)))
    \<and> pbar_total (snd (run env bi ti s)) = Some (total_files subs)
    \<and> pbar_n (snd (run env bi ti s)) = length subs + 1"
proof -
  let ?s2 = "s2\<lparr>pbar_total := Some (total_files subs), pbar_n := 0, results := []\<rparr>"
  obtain rs s4 where r:
    "list_all2 (slot_record (netloc_valid env) (''/'' @ py_lower (py_strip bi) @ ''/'')
                   (py_lower (py_strip bi))) (None # map Some subs) rs"
    "slots_done rs ?s2 s4"
    "run env bi ti s = (Inr (), print Msg_Done (snd (save env rs ''results.json'' s4)))"
    using run_success [OF assms] by blast
  have len: "length rs = length subs + 1" using list_all2_lengthD [OF r(1)] by simp
  have "results s4 = rs" "pbar_total s4 = Some (total_files subs)" "pbar_n s4 = length rs"
    using slots_done_fields [OF r(2)] by simp_all
  then show ?thesis using r(1,3) len by (simp add: print_def save_fields)
qed

lemma slot_record_path:
  "slot_record valid folder b sb r \<Longrightarrow> yandex_disk_path r = stem folder b sb @ file_of valid r"
  by (auto simp: slot_record_def file_of_def split: sum.splits)

lemma process_breed_image_record:
  "results (snd (process_breed_image env b folder up s)) = results s @
     [case get_breed_image env b s of
        (Inl e, s1) \<Rightarrow>
          \<lparr>breed = b, sub_breed = None, image_url = JNull,
           yandex_disk_path = folder @ b @ ''_'' @ FALLBACK, status = ''failed''\<rparr>
      | (Inr img, s1) \<Rightarrow>
          (case get_filename_from_url (netloc_valid env) img of
             Inl e \<Rightarrow>
               \<lparr>breed = b, sub_breed = None, image_url = JNull,
                yandex_disk_path = folder @ b @ ''_'' @ FALLBACK, status = ''failed''\<rparr>
           | Inr f \<Rightarrow>
               \<lparr>breed = b, sub_breed = None, image_url = img,
                yandex_disk_path = folder @ b @ ''_'' @ f,
                status = (if fst (upload_from_url env up img (folder @ b @ ''_'' @ f) s1) = Inr True
                          then ''uploaded'' else ''failed'')\<rparr>)]"
proof -
  obtain x s1 where g: "get_breed_image env b s = (x, s1)" by (cases "get_breed_image env b s")
  have "network_only s (snd (get_breed_image env b s))"
    unfolding get_breed_image_def by (rule get_image_url_network)
  then have n1: "results s1 = results s" using g by (simp add: network_only_fields)
  show ?thesis
  proof (cases x)
    case (Inl e)
    then show ?thesis using g n1
      by (simp add: process_breed_image_def except_Exception_def finally_update_def append_result_def)
  next
    case (Inr img)
    show ?thesis
    proof (cases "get_filename_from_url (netloc_valid env) img")
      case (Inl e)
      then show ?thesis using g Inr n1
        by (simp add: process_breed_image_def except_Exception_def finally_update_def append_result_def)
    next
      case f: (Inr f)
      obtain ok s2 where u: "upload_from_url env up img (folder @ b @ ''_'' @ f) s1 = (Inr ok, s2)"
        and n2: "network_only s1 s2"
        using upload_from_url_network by blast
      have "results s2 = results s" using n1 n2 by (simp add: network_only_fields)
      then show ?thesis using g Inr f u
        by (simp add: process_breed_image_def except_Exception_def finally_update_def append_result_def)
    qed
  qed
qed

lemma process_sub_breed_image_record:
  "results (snd (process_sub_breed_image env b sb folder up s)) = results s @
     [case get_sub_breed_image env b sb s of
        (Inl e, s1) \<Rightarrow>
          \<lparr>breed = b, sub_breed = Some sb, image_url = JNull,
           yandex_disk_path = folder @ b @ ''_'' @ sb @ ''_'' @ FALLBACK, status = ''failed''\<rparr>
      | (Inr img, s1) \<Rightarrow>
          (case get_filename_from_url (netloc_valid env) img of
             Inl e \<Rightarrow>
               \<lparr>breed = b, sub_breed = Some sb, image_url = JNull,
                yandex_disk_path = folder @ b @ ''_'' @ sb @ ''_'' @ FALLBACK, status = ''failed''\<rparr>
           | Inr f \<Rightarrow>
               \<lparr>breed = b, sub_breed = Some sb, image_url = img,
                yandex_disk_path = folder @ b @ ''_'' @ sb @ ''_'' @ f,
                status = (if fst (upload_from_url env up img (folder @ b @ ''_'' @ sb @ ''_'' @ f) s1)
                               = Inr True
                          then ''uploaded'' else ''failed'')\<rparr>)]"
proof -
  obtain x s1 where g: "get_sub_breed_image env b sb s = (x, s1)"
    by (cases "get_sub_breed_image env b sb s")
  have "network_only s (snd (get_sub_breed_image env b sb s))"
    unfolding get_sub_breed_image_def by (rule get_image_url_network)
  then have n1: "results s1 = results s" using g by (simp add: network_only_fields)
  show ?thesis
  proof (cases x)
    case (Inl e)
    then show ?thesis using g n1
      by (simp add: process_sub_breed_image_def except_Exception_def finally_update_def
            append_result_def)
  next
    case (Inr img)
    show ?thesis
    proof (cases "get_filename_from_url (netloc_valid env) img")
      case (Inl e)
      then show ?thesis using g Inr n1
        by (simp add: process_sub_breed_image_def except_Exception_def finally_update_def
              append_result_def)
    next
      case f: (Inr f)
      obtain ok s2 where
        u: "upload_from_url env up img (folder @ b @ ''_'' @ sb @ ''_'' @ f) s1 = (Inr ok, s2)"
        and n2: "network_only s1 s2"
        using upload_from_url_network by blast
      have "results s2 = results s" using n1 n2 by (simp add: network_only_fields)
      then show ?thesis using g Inr f u
        by (simp add: process_sub_breed_image_def except_Exception_def finally_update_def
              append_result_def)
    qed
  qed
qed

lemma hound_input: "py_lower (py_strip ''hound'') = ''hound''"
  by (simp add: py_lower_def py_strip_def isspace_def lower_char_def)

lemma t_input: "py_strip ''t'' = ''t''"
  by (simp add: py_strip_def isspace_def)

lemma run_success_proj:
  assumes "py_strip ti \<noteq> []"
    and "fst (get_all_breeds env s) = Inr breeds"
    and "map_of breeds (py_lower (py_strip bi)) = Some subs"
    and "fst (create_folder env (YandexDiskUploader (py_strip ti))
                 (''/'' @ py_lower (py_strip bi) @ ''/'') (snd (get_all_breeds env s))) = Inr True"
  shows "fst (run env bi ti s) = Inr ()
    \<and> list_all2 (slot_record (netloc_valid env) (''/'' @ py_lower (py_strip bi) @ ''/'')
                   (py_lower (py_strip bi))) (None # map Some subs) (results (snd (run env bi ti s)))
    \<and> pbar_total (snd (run env bi ti s)) = Some (total_files subs)
    \<and> pbar_n (snd (run env bi ti s)) = length subs + 1"
proof (rule run_success_fields)
  show "py_strip ti \<noteq> []" by fact
  show "get_all_breeds env s = (Inr breeds, snd (get_all_breeds env s))"
    using assms(2) by (simp add: prod_eq_iff)
  show "map_of breeds (py_lower (py_strip bi)) = Some subs" by fact
  show "create_folder env (YandexDiskUploader (py_strip ti))
          (''/'' @ py_lower (py_strip bi) @ ''/'') (snd (get_all_breeds env s))
        = (Inr True, snd (create_folder env (YandexDiskUploader (py_strip ti))
          (''/'' @ py_lower (py_strip bi) @ ''/'') (snd (get_all_breeds env s))))"
    using assms(4) by (simp add: prod_eq_iff)
qed

lemma slot_records_shape:
  assumes "list_all2 (slot_record valid folder b) sbs rs"
  shows "map sub_breed rs = sbs" "map breed rs = replicate (length sbs) b"
  using assms by (induction sbs rs rule: list_all2_induct) (auto simp: slot_record_def)

text \<open>
  C2 (as amended). Take a run that passes breed resolution and folder creation: the
  credential is not empty, the catalog fetch returns a catalog that has the requested breed
  with sub-breeds \<open>subs\<close>, and the folder is created. Whatever the services answer
  afterwards, the run returns normally and its result list has exactly
  \<open>length subs + 1\<close> records, for the breed itself and then for each sub-breed in catalog
  order. Every record is a slot record: its status is \<open>uploaded\<close> or \<open>failed\<close>, and its path
  is the folder, the breed, the sub-breed if any, and the file name extracted from its image
  URL. For each image slot, of the breed and of a sub-breed alike: when the image fetch
  raises, or the file name extraction raises on the fetched value, the appended record is
  the fallback record (no image URL, status \<open>failed\<close>, path ending with the fallback name
  \<open>image.jpg\<close>); when both succeed, the appended record keeps the fetched value and the
  path built from the extracted file name, and its status is \<open>uploaded\<close> if the upload
  returned true and \<open>failed\<close> otherwise, so that a failed upload does not change the path.
\<close>

theorem run_one_record_per_slot:
  assumes "py_strip ti \<noteq> []"
    and "fst (get_all_breeds env s) = Inr breeds"
    and "map_of breeds (py_lower (py_strip bi)) = Some subs"
    and "fst (create_folder env (YandexDiskUploader (py_strip ti))
                 (''/'' @ py_lower (py_strip bi) @ ''/'') (snd (get_all_breeds env s))) = Inr True"
  shows "fst (run env bi ti s) = Inr ()
    \<and> length (results (snd (run env bi ti s))) = length subs + 1
    \<and> map breed (results (snd (run env bi ti s))) = replicate (length subs + 1) (py_lower (py_strip bi))
    \<and> map sub_breed (results (snd (run env bi ti s))) = None # map Some subs
    \<and> list_all2 (slot_record (netloc_valid env) (''/'' @ py_lower (py_strip bi) @ ''/'')
                   (py_lower (py_strip bi))) (None # map Some subs) (results (snd (run env bi ti s)))
    \<and> (fst (get_sub_breed_image env b sb t) = Inl e \<longrightarrow>
         results (snd (process_sub_breed_image env b sb folder up t)) = results t @
           [\<lparr>breed = b, sub_breed = Some sb, image_url = JNull,
             yandex_disk_path = folder @ b @ ''_'' @ sb @ ''_'' @ FALLBACK, status = ''failed''\<rparr>])
    \<and> (fst (get_sub_breed_image env b sb t) = Inr img \<and>
        get_filename_from_url (netloc_valid env) img = Inl e \<longrightarrow>
         results (snd (process_sub_breed_image env b sb folder up t)) = results t @
           [\<lparr>breed = b, sub_breed = Some sb, image_url = JNull,
             yandex_disk_path = folder @ b @ ''_'' @ sb @ ''_'' @ FALLBACK, status = ''failed''\<rparr>])
    \<and> (get_sub_breed_image env b sb t = (Inr img, t1) \<and>
        get_filename_from_url (netloc_valid env) img = Inr f \<longrightarrow>
         results (snd (process_sub_breed_image env b sb folder up t)) = results t @
           [\<lparr>breed = b, sub_breed = Some sb, image_url = img,
             yandex_disk_path = folder @ b @ ''_'' @ sb @ ''_'' @ f,
             status = (if fst (upload_from_url env up img (folder @ b @ ''_'' @ sb @ ''_'' @ f) t1)
                            = Inr True
                       then ''uploaded'' else ''failed'')\<rparr>])
    \<and> (fst (get_breed_image env b t) = Inl e \<longrightarrow>
         results (snd (process_breed_image env b folder up t)) = results t @
           [\<lparr>breed = b, sub_breed = None, image_url = JNull,
             yandex_disk_path = folder @ b @ ''_'' @ FALLBACK, status = ''failed''\<rparr>])
    \<and> (fst (get_breed_image env b t) = Inr img \<and>
        get_filename_from_url (netloc_valid env) img = Inl e \<longrightarrow>
         results (snd (process_breed_image env b folder up t)) = results t @
           [\<lparr>breed = b, sub_breed = None, image_url = JNull,
             yandex_disk_path = folder @ b @ ''_'' @ FALLBACK, status = ''failed''\<rparr>])
    \<and> (get_breed_image env b t = (Inr img, t1) \<and>
        get_filename_from_url (netloc_valid env) img = Inr f \<longrightarrow>
         results (snd (process_breed_image env b folder up t)) = results t @
           [\<lparr>breed = b, sub_breed = None, image_url = img,
             yandex_disk_path = folder @ b @ ''_'' @ f,
             status = (if fst (upload_from_url env up img (folder @ b @ ''_'' @ f) t1) = Inr True
                       then ''uploaded'' else ''failed'')\<rparr>])"
proof -
  note r = run_success_proj [OF assms]
  have l: "list_all2 (slot_record (netloc_valid env) (''/'' @ py_lower (py_strip bi) @ ''/'')
                   (py_lower (py_strip bi))) (None # map Some subs) (results (snd (run env bi ti s)))"
    using r by simp
  have len: "length (results (snd (run env bi ti s))) = length subs + 1"
    using list_all2_lengthD [OF l] by simp
  have a: "fst (get_sub_breed_image env b sb t) = Inl e \<longrightarrow>
         results (snd (process_sub_breed_image env b sb folder up t)) = results t @
           [\<lparr>breed = b, sub_breed = Some sb, image_url = JNull,
             yandex_disk_path = folder @ b @ ''_'' @ sb @ ''_'' @ FALLBACK, status = ''failed''\<rparr>]"
    unfolding process_sub_breed_image_record by (auto split: prod.splits)
  have a': "fst (get_sub_breed_image env b sb t) = Inr img \<and>
        get_filename_from_url (netloc_valid env) img = Inl e \<longrightarrow>
         results (snd (process_sub_breed_image env b sb folder up t)) = results t @
           [\<lparr>breed = b, sub_breed = Some sb, image_url = JNull,
             yandex_disk_path = folder @ b @ ''_'' @ sb @ ''_'' @ FALLBACK, status = ''failed''\<rparr>]"
    unfolding process_sub_breed_image_record by (auto split: prod.splits)
  have b: "get_sub_breed_image env b sb t = (Inr img, t1) \<and>
        get_filename_from_url (netloc_valid env) img = Inr f \<longrightarrow>
         results (snd (process_sub_breed_image env b sb folder up t)) = results t @
           [\<lparr>breed = b, sub_breed = Some sb, image_url = img,
             yandex_disk_path = folder @ b @ ''_'' @ sb @ ''_'' @ f,
             status = (if fst (upload_from_url env up img (folder @ b @ ''_'' @ sb @ ''_'' @ f) t1)
                            = Inr True
                       then ''uploaded'' else ''failed'')\<rparr>]"
    unfolding process_sub_breed_image_record by simp
  have c: "fst (get_breed_image env b t) = Inl e \<longrightarrow>
         results (snd (process_breed_image env b folder up t)) = results t @
           [\<lparr>breed = b, sub_breed = None, image_url = JNull,
             yandex_disk_path = folder @ b @ ''_'' @ FALLBACK, status = ''failed''\<rparr>]"
    unfolding process_breed_image_record by (auto split: prod.splits)
  have c': "fst (get_breed_image env b t) = Inr img \<and>
        get_filename_from_url (netloc_valid env) img = Inl e \<longrightarrow>
         results (snd (process_breed_image env b folder up t)) = results t @
           [\<lparr>breed = b, sub_breed = None, image_url = JNull,
             yandex_disk_path = folder @ b @ ''_'' @ FALLBACK, status = ''failed''\<rparr>]"
    unfolding process_breed_image_record by (auto split: prod.splits)
  have d: "get_breed_image env b t = (Inr img, t1) \<and>
        get_filename_from_url (netloc_valid env) img = Inr f \<longrightarrow>
         results (snd (process_breed_image env b folder up t)) = results t @
           [\<lparr>breed = b, sub_breed = None, image_url = img,
             yandex_disk_path = folder @ b @ ''_'' @ f,
             status = (if fst (upload_from_url env up img (folder @ b @ ''_'' @ f) t1) = Inr True
                       then ''uploaded'' else ''failed'')\<rparr>]"
    unfolding process_breed_image_record by simp
  show ?thesis
    using r len slot_records_shape [OF l] a a' b c c' d by simp
qed

theorem run_one_record_per_slot_witness:
  "py_strip ''t'' \<noteq> []
   \<and> fst (get_all_breeds (scripted_env (ok_body demo_catalog) (Raises Timeout) [Inr 201] Written)
            (initial_state 0 Map.empty)) = Inr demo_catalog
   \<and> map_of demo_catalog (py_lower (py_strip ''hound'')) = Some [''afghan'', ''blood'']
   \<and> fst (create_folder (scripted_env (ok_body demo_catalog) (Raises Timeout) [Inr 201] Written)
            (YandexDiskUploader (py_strip ''t'')) (''/'' @ py_lower (py_strip ''hound'') @ ''/'')
            (snd (get_all_breeds (scripted_env (ok_body demo_catalog) (Raises Timeout) [Inr 201] Written)
                   (initial_state 0 Map.empty)))) = Inr True
   \<and> length (results (snd (run (scripted_env (ok_body demo_catalog) (Raises Timeout) [Inr 201] Written)
            ''hound'' ''t'' (initial_state 0 Map.empty)))) = 3
   \<and> map sub_breed (results (snd (run (scripted_env (ok_body demo_catalog) (Raises Timeout) [Inr 201] Written)
            ''hound'' ''t'' (initial_state 0 Map.empty)))) = [None, Some ''afghan'', Some ''blood'']"
proof -
  let ?E = "scripted_env (ok_body demo_catalog) (Raises Timeout) [Inr 201] Written"
  let ?s = "initial_state 0 Map.empty"
  have h1: "py_strip ''t'' \<noteq> []" by (simp add: t_input)
  have h2: "fst (get_all_breeds ?E ?s) = Inr demo_catalog"
    by (simp add: get_all_breeds_eq scripted_env_def ok_body_def initial_state_def Let_def)
  have h3: "map_of demo_catalog (py_lower (py_strip ''hound'')) = Some [''afghan'', ''blood'']"
    by (simp add: hound_input demo_catalog_def)
  have h4: "fst (create_folder ?E (YandexDiskUploader (py_strip ''t''))
              (''/'' @ py_lower (py_strip ''hound'') @ ''/'') (snd (get_all_breeds ?E ?s))) = Inr True"
    by (simp add: create_folder_eq get_all_breeds_eq scripted_env_def ok_body_def
          initial_state_def Let_def)
  show ?thesis
    using h1 h2 h3 h4 run_one_record_per_slot [OF h1 h2 h3 h4] by simp
qed

theorem failed_upload_keeps_real_path:
  "results (snd (main (scripted_env (ok_body demo_catalog) (ok_body demo_image) [Inr 201, Inr 500] Written)
                   0 Map.empty ''akita'' ''t''))
   = [\<lparr>breed = ''akita'', sub_breed = None, image_url = demo_image,
       yandex_disk_path = ''/akita/akita_x.jpg'', status = ''failed''\<rparr>]"
  by code_simp

text \<open>
  C9. With the catalog \<open>{"akita": [], "hound": ["afghan", "blood"]}\<close> and the requested
  breed \<open>hound\<close>, a run that gets this catalog and creates the folder sets the progress
  total to 3 (one plus the two sub-breeds), advances it three times and records three
  destination paths: \<open>/hound/hound_\<close>, \<open>/hound/hound_afghan_\<close> and \<open>/hound/hound_blood_\<close>,
  each followed by the record's file name, which is the name extracted from the record's
  image URL (the fallback name when there is none).
\<close>

theorem hound_example:
  assumes "py_strip ti \<noteq> []"
    and "fst (get_all_breeds env s) = Inr [(''akita'', []), (''hound'', [''afghan'', ''blood''])]"
    and "fst (create_folder env (YandexDiskUploader (py_strip ti)) ''/hound/''
               (snd (get_all_breeds env s))) = Inr True"
  shows "total_files [''afghan'', ''blood''] = 3
    \<and> pbar_total (snd (run env ''hound'' ti s)) = Some 3
    \<and> pbar_n (snd (run env ''hound'' ti s)) = 3
    \<and> (\<exists>r0 r1 r2. results (snd (run env ''hound'' ti s)) = [r0, r1, r2]
          \<and> yandex_disk_path r0 = ''/hound/hound_'' @ file_of (netloc_valid env) r0
          \<and> yandex_disk_path r1 = ''/hound/hound_afghan_'' @ file_of (netloc_valid env) r1
          \<and> yandex_disk_path r2 = ''/hound/hound_blood_'' @ file_of (netloc_valid env) r2)
    \<and> (r \<in> set (results (snd (run env ''hound'' ti s)))
          \<longrightarrow> get_filename_from_url (netloc_valid env) (image_url r)
                = Inr (file_of (netloc_valid env) r))"
proof -
  have look: "map_of [(''akita'', []), (''hound'', [''afghan'', ''blood''])]
                (py_lower (py_strip ''hound'')) = Some [''afghan'', ''blood'']"
    by (simp add: hound_input)
  have fold: "fst (create_folder env (YandexDiskUploader (py_strip ti))
                (''/'' @ py_lower (py_strip ''hound'') @ ''/'') (snd (get_all_breeds env s))) = Inr True"
    using assms(3) by (simp add: hound_input)
  note r = run_success_proj [OF assms(1) assms(2) look fold]
  let ?rs = "results (snd (run env ''hound'' ti s))"
  have l: "list_all2 (slot_record (netloc_valid env) ''/hound/'' ''hound'')
             [None, Some ''afghan'', Some ''blood''] ?rs"
    using r by (simp add: hound_input)
  then obtain r0 r1 r2 where rs: "?rs = [r0, r1, r2]"
    and s0: "slot_record (netloc_valid env) ''/hound/'' ''hound'' None r0"
    and s1: "slot_record (netloc_valid env) ''/hound/'' ''hound'' (Some ''afghan'') r1"
    and s2: "slot_record (netloc_valid env) ''/hound/'' ''hound'' (Some ''blood'') r2"
    by (auto simp: list_all2_Cons1)
  have paths: "yandex_disk_path r0 = ''/hound/hound_'' @ file_of (netloc_valid env) r0"
    "yandex_disk_path r1 = ''/hound/hound_afghan_'' @ file_of (netloc_valid env) r1"
    "yandex_disk_path r2 = ''/hound/hound_blood_'' @ file_of (netloc_valid env) r2"
    using slot_record_path [OF s0] slot_record_path [OF s1] slot_record_path [OF s2]
    by (simp_all add: stem_def)
  have ex: "r \<in> set ?rs
          \<longrightarrow> get_filename_from_url (netloc_valid env) (image_url r)
                = Inr (file_of (netloc_valid env) r)"
    using s0 s1 s2 unfolding rs
    by (auto simp: slot_record_def file_of_def split: sum.splits)
  have "total_files [''afghan'', ''blood''] = 3" by (simp add: total_files_def)
  then show ?thesis using r rs paths ex by simp
qed

theorem hound_example_witness:
  "py_strip ''t'' \<noteq> []
   \<and> fst (get_all_breeds (scripted_env (ok_body demo_catalog) (ok_body demo_image)
            [Inr 201, Inr 202, Inr 202, Inr 202] Written) (initial_state 0 Map.empty))
       = Inr [(''akita'', []), (''hound'', [''afghan'', ''blood''])]
   \<and> fst (create_folder (scripted_env (ok_body demo_catalog) (ok_body demo_image)
            [Inr 201, Inr 202, Inr 202, Inr 202] Written) (YandexDiskUploader (py_strip ''t'')) ''/hound/''
            (snd (get_all_breeds (scripted_env (ok_body demo_catalog) (ok_body demo_image)
                   [Inr 201, Inr 202, Inr 202, Inr 202] Written) (initial_state 0 Map.empty)))) = Inr True
   \<and> pbar_total (snd (run (scripted_env (ok_body demo_catalog) (ok_body demo_image)
            [Inr 201, Inr 202, Inr 202, Inr 202] Written) ''hound'' ''t'' (initial_state 0 Map.empty))) = Some 3
   \<and> map yandex_disk_path (results (snd (run (scripted_env (ok_body demo_catalog) (ok_body demo_image)
            [Inr 201, Inr 202, Inr 202, Inr 202] Written) ''hound'' ''t'' (initial_state 0 Map.empty))))
       = [''/hound/hound_x.jpg'', ''/hound/hound_afghan_x.jpg'', ''/hound/hound_blood_x.jpg'']"
proof -
  let ?E = "scripted_env (ok_body demo_catalog) (ok_body demo_image)
              [Inr 201, Inr 202, Inr 202, Inr 202] Written"
  let ?s = "initial_state 0 Map.empty"
  have h1: "py_strip ''t'' \<noteq> []" by (simp add: t_input)
  have h2: "fst (get_all_breeds ?E ?s) = Inr [(''akita'', []), (''hound'', [''afghan'', ''blood''])]"
    by (simp add: get_all_breeds_eq scripted_env_def ok_body_def initial_state_def Let_def
          demo_catalog_def)
  have h3: "fst (create_folder ?E (YandexDiskUploader (py_strip ''t'')) ''/hound/''
              (snd (get_all_breeds ?E ?s))) = Inr True"
    by (simp add: create_folder_eq get_all_breeds_eq scripted_env_def ok_body_def
          initial_state_def Let_def)
  have e: "map yandex_disk_path (results (snd (run ?E ''hound'' ''t'' ?s)))
       = [''/hound/hound_x.jpg'', ''/hound/hound_afghan_x.jpg'', ''/hound/hound_blood_x.jpg'']"
    by code_simp
  show ?thesis
    using h1 h2 h3 e hound_example [OF h1 h2 h3] by simp
qed

lemma get_all_breeds_fields:
  "trace (snd (get_all_breeds env s)) = trace s @ [catalog_request]"
  "results (snd (get_all_breeds env s)) = results s"
  "files (snd (get_all_breeds env s)) = files s"
  using get_all_breeds_state [of s env]
  by (auto simp: print_def network_only_fields)

lemma create_folder_fields:
  "trace (snd (create_folder env up p s)) = trace s @ [create_folder_request up p]"
  "results (snd (create_folder env up p s)) = results s"
  "files (snd (create_folder env up p s)) = files s"
  "stdout (snd (create_folder env up p s)) = stdout s"
  by (simp_all add: create_folder_eq)

lemma run_token_empty:
  "py_strip ti = [] \<Longrightarrow> run env bi ti s = (Inr (), print Msg_Token_Empty s)"
  by (simp add: run_def)

lemma run_catalog_raises:
  "py_strip ti \<noteq> [] \<Longrightarrow> fst (get_all_breeds env s) = Inl e \<Longrightarrow>
   run env bi ti s = (Inl e, snd (get_all_breeds env s))"
  by (cases "get_all_breeds env s") (simp add: run_def)

lemma run_catalog_empty:
  "py_strip ti \<noteq> [] \<Longrightarrow> fst (get_all_breeds env s) = Inr [] \<Longrightarrow>
   run env bi ti s = (Inr (), print Msg_Breeds_Failed (snd (get_all_breeds env s)))"
  by (cases "get_all_breeds env s") (simp add: run_def)

lemma run_breed_absent:
  "py_strip ti \<noteq> [] \<Longrightarrow> fst (get_all_breeds env s) = Inr breeds \<Longrightarrow> breeds \<noteq> [] \<Longrightarrow>
   map_of breeds (py_lower (py_strip bi)) = None \<Longrightarrow>
   run env bi ti s =
     (Inr (), print (Msg_Breed_Not_Found (py_lower (py_strip bi))) (snd (get_all_breeds env s)))"
  by (cases "get_all_breeds env s") (simp add: run_def)

lemma run_folder_failed:
  "py_strip ti \<noteq> [] \<Longrightarrow> fst (get_all_breeds env s) = Inr breeds \<Longrightarrow>
   map_of breeds (py_lower (py_strip bi)) = Some subs \<Longrightarrow>
   fst (create_folder env (YandexDiskUploader (py_strip ti))
          (''/'' @ py_lower (py_strip bi) @ ''/'') (snd (get_all_breeds env s))) = Inr False \<Longrightarrow>
   run env bi ti s =
     (Inr (), print Msg_Folder_Failed
        (snd (create_folder env (YandexDiskUploader (py_strip ti))
               (''/'' @ py_lower (py_strip bi) @ ''/'') (snd (get_all_breeds env s)))))"
  by (cases "get_all_breeds env s";
      cases "create_folder env (YandexDiskUploader (py_strip ti))
               (''/'' @ py_lower (py_strip bi) @ ''/'') (snd (get_all_breeds env s))")
     (auto simp: run_def Let_def)

lemma create_folder_fst_cases:
  "fst (create_folder env up p s) = Inr True \<or> fst (create_folder env up p s) = Inr False"
  by (auto simp: create_folder_eq)

text \<open>Every run is one of six kinds.\<close>

lemma run_cases:
  obtains (token) "py_strip ti = []"
  | (raises) e where "py_strip ti \<noteq> []" "fst (get_all_breeds env s) = Inl e"
  | (empty) "py_strip ti \<noteq> []" "fst (get_all_breeds env s) = Inr []"
  | (absent) breeds where "py_strip ti \<noteq> []" "fst (get_all_breeds env s) = Inr breeds"
      "breeds \<noteq> []" "map_of breeds (py_lower (py_strip bi)) = None"
  | (folder) breeds subs where "py_strip ti \<noteq> []" "fst (get_all_breeds env s) = Inr breeds"
      "map_of breeds (py_lower (py_strip bi)) = Some subs"
      "fst (create_folder env (YandexDiskUploader (py_strip ti))
          (''/'' @ py_lower (py_strip bi) @ ''/'') (snd (get_all_breeds env s))) = Inr False"
  | (success) breeds subs where "py_strip ti \<noteq> []" "fst (get_all_breeds env s) = Inr breeds"
      "map_of breeds (py_lower (py_strip bi)) = Some subs"
      "fst (create_folder env (YandexDiskUploader (py_strip ti))
          (''/'' @ py_lower (py_strip bi) @ ''/'') (snd (get_all_breeds env s))) = Inr True"
proof (cases "py_strip ti = []")
  case True
  then show ?thesis by (rule token)
next
  case tok: False
  show ?thesis
  proof (cases "fst (get_all_breeds env s)")
    case (Inl e)
    with tok show ?thesis by (rule raises)
  next
    case (Inr breeds)
    show ?thesis
    proof (cases "map_of breeds (py_lower (py_strip bi))")
      case None
      show ?thesis
      proof (cases "breeds = []")
        case True
        with tok Inr show ?thesis by (auto intro: empty)
      next
        case False
        with tok Inr None show ?thesis by (auto intro: absent)
      qed
    next
      case (Some subs)
      show ?thesis
        using create_folder_fst_cases [of env "YandexDiskUploader (py_strip ti)"
          "''/'' @ py_lower (py_strip bi) @ ''/''" "snd (get_all_breeds env s)"]
        using tok Inr Some by (auto intro: folder success)
    qed
  qed
qed

lemma endswith_append: "endswith (xs @ ys) ys"
  by (simp add: endswith_def)

lemma run_results:
  "results (snd (run env bi ti s)) = results s
   \<or> (\<exists>subs. list_all2 (slot_record (netloc_valid env) (''/'' @ py_lower (py_strip bi) @ ''/'')
                  (py_lower (py_strip bi))) (None # map Some subs) (results (snd (run env bi ti s))))"
proof (cases rule: run_cases [where ti = ti and env = env and s = s and bi = bi])
  case token
  then show ?thesis by (simp add: run_token_empty print_def)
next
  case (raises e)
  then show ?thesis by (simp add: run_catalog_raises get_all_breeds_fields)
next
  case empty
  then show ?thesis by (simp add: run_catalog_empty get_all_breeds_fields print_def)
next
  case (absent breeds)
  then show ?thesis by (simp add: run_breed_absent get_all_breeds_fields print_def)
next
  case (folder breeds subs)
  then show ?thesis
    by (simp add: run_folder_failed get_all_breeds_fields create_folder_fields print_def)
next
  case (success breeds subs)
  then show ?thesis using run_success_proj by blast
qed

lemma get_all_breeds_stdout:
  "\<exists>pre. stdout (snd (get_all_breeds env s)) = stdout s @ pre"
  using get_all_breeds_state [of s env]
  by (auto simp: print_def network_only_fields)

lemma exit_token:
  assumes "py_strip ti = []"
  shows "fst (run env bi ti s) = Inr ()
     \<and> stdout (snd (run env bi ti s)) = stdout s @ [Msg_Token_Empty]
     \<and> trace (snd (run env bi ti s)) = trace s
     \<and> files (snd (run env bi ti s)) = files s
     \<and> results (snd (run env bi ti s)) = results s"
  using assms by (simp add: run_token_empty print_def)

lemma exit_catalog:
  assumes "py_strip ti \<noteq> []" "fst (get_all_breeds env s) = Inr []"
  shows "fst (run env bi ti s) = Inr ()
     \<and> (\<exists>pre. stdout (snd (run env bi ti s)) = stdout s @ pre @ [Msg_Breeds_Failed])
     \<and> trace (snd (run env bi ti s)) = trace s @ [catalog_request]
     \<and> files (snd (run env bi ti s)) = files s
     \<and> results (snd (run env bi ti s)) = results s"
  using assms get_all_breeds_stdout [of env s]
  by (auto simp: run_catalog_empty print_def get_all_breeds_fields)

lemma exit_absent:
  assumes "py_strip ti \<noteq> []" "fst (get_all_breeds env s) = Inr breeds" "breeds \<noteq> []"
    "map_of breeds (py_lower (py_strip bi)) = None"
  shows "fst (run env bi ti s) = Inr ()
     \<and> (\<exists>pre. stdout (snd (run env bi ti s))
                = stdout s @ pre @ [Msg_Breed_Not_Found (py_lower (py_strip bi))])
     \<and> trace (snd (run env bi ti s)) = trace s @ [catalog_request]
     \<and> files (snd (run env bi ti s)) = files s
     \<and> results (snd (run env bi ti s)) = results s"
  using assms get_all_breeds_stdout [of env s]
  by (auto simp: run_breed_absent print_def get_all_breeds_fields)

lemma exit_folder:
  assumes "py_strip ti \<noteq> []" "fst (get_all_breeds env s) = Inr breeds"
    "map_of breeds (py_lower (py_strip bi)) = Some subs"
    "fst (create_folder env (YandexDiskUploader (py_strip ti))
          (''/'' @ py_lower (py_strip bi) @ ''/'') (snd (get_all_breeds env s))) = Inr False"
  shows "fst (run env bi ti s) = Inr ()
     \<and> (\<exists>pre. stdout (snd (run env bi ti s)) = stdout s @ pre @ [Msg_Folder_Failed])
     \<and> trace (snd (run env bi ti s)) = trace s @
          [catalog_request,
           create_folder_request (YandexDiskUploader (py_strip ti)) (''/'' @ py_lower (py_strip bi) @ ''/'')]
     \<and> files (snd (run env bi ti s)) = files s
     \<and> results (snd (run env bi ti s)) = results s"
  using get_all_breeds_stdout [of env s]
  by (auto simp: run_folder_failed [OF assms] print_def get_all_breeds_fields create_folder_fields)

text \<open>
  C7. On each of the four early exits the run returns normally, the last line it prints
  is the failure message of that exit, no result file is written (the files are those
  from before the run), no record is added, and the only requests made are the catalog
  fetch and, on the fourth exit, the folder creation, so that no image is fetched and no
  upload request is made. The four exits: the credential is empty after stripping; the
  catalog fetch returns an empty catalog, which it does on every error of the
  \<^verbatim>\<open>requests\<close> library; the requested breed is not a key of the catalog; the creation of
  the destination folder fails.
\<close>

theorem early_exits:
  "(py_strip ti = [] \<longrightarrow>
      fst (run env bi ti s) = Inr ()
      \<and> stdout (snd (run env bi ti s)) = stdout s @ [Msg_Token_Empty]
      \<and> trace (snd (run env bi ti s)) = trace s
      \<and> files (snd (run env bi ti s)) = files s
      \<and> results (snd (run env bi ti s)) = results s)
   \<and> (py_strip ti \<noteq> [] \<and> fst (get_all_breeds env s) = Inr [] \<longrightarrow>
      fst (run env bi ti s) = Inr ()
      \<and> (\<exists>pre. stdout (snd (run env bi ti s)) = stdout s @ pre @ [Msg_Breeds_Failed])
      \<and> trace (snd (run env bi ti s)) = trace s @ [catalog_request]
      \<and> files (snd (run env bi ti s)) = files s
      \<and> results (snd (run env bi ti s)) = results s)
   \<and> (py_strip ti \<noteq> [] \<and> fst (get_all_breeds env s) = Inr breeds \<and> breeds \<noteq> []
       \<and> map_of breeds (py_lower (py_strip bi)) = None \<longrightarrow>
      fst (run env bi ti s) = Inr ()
      \<and> (\<exists>pre. stdout (snd (run env bi ti s))
                 = stdout s @ pre @ [Msg_Breed_Not_Found (py_lower (py_strip bi))])
      \<and> trace (snd (run env bi ti s)) = trace s @ [catalog_request]
      \<and> files (snd (run env bi ti s)) = files s
      \<and> results (snd (run env bi ti s)) = results s)
   \<and> (py_strip ti \<noteq> [] \<and> fst (get_all_breeds env s) = Inr breeds
       \<and> map_of breeds (py_lower (py_strip bi)) = Some subs
       \<and> fst (create_folder env (YandexDiskUploader (py_strip ti))
                (''/'' @ py_lower (py_strip bi) @ ''/'') (snd (get_all_breeds env s))) = Inr False \<longrightarrow>
      fst (run env bi ti s) = Inr ()
      \<and> (\<exists>pre. stdout (snd (run env bi ti s)) = stdout s @ pre @ [Msg_Folder_Failed])
      \<and> trace (snd (run env bi ti s)) = trace s @
           [catalog_request,
            create_folder_request (YandexDiskUploader (py_strip ti))
              (''/'' @ py_lower (py_strip bi) @ ''/'')]
      \<and> files (snd (run env bi ti s)) = files s
      \<and> results (snd (run env bi ti s)) = results s)
   \<and> meth catalog_request = GET
   \<and> url catalog_request = BASE_URL @ ''/breeds/list/all''
   \<and> meth (create_folder_request up p) = PUT
   \<and> (is_RequestException e \<and> fst (breeds_api env (world s) catalog_request) = Raises e
        \<longrightarrow> fst (get_all_breeds env s) = Inr [])"
proof -
  have 1: "py_strip ti = [] \<longrightarrow>
      fst (run env bi ti s) = Inr ()
      \<and> stdout (snd (run env bi ti s)) = stdout s @ [Msg_Token_Empty]
      \<and> trace (snd (run env bi ti s)) = trace s
      \<and> files (snd (run env bi ti s)) = files s
      \<and> results (snd (run env bi ti s)) = results s"
    using exit_token by blast
  have 2: "py_strip ti \<noteq> [] \<and> fst (get_all_breeds env s) = Inr [] \<longrightarrow>
      fst (run env bi ti s) = Inr ()
      \<and> (\<exists>pre. stdout (snd (run env bi ti s)) = stdout s @ pre @ [Msg_Breeds_Failed])
      \<and> trace (snd (run env bi ti s)) = trace s @ [catalog_request]
      \<and> files (snd (run env bi ti s)) = files s
      \<and> results (snd (run env bi ti s)) = results s"
    using exit_catalog by blast
  have 3: "py_strip ti \<noteq> [] \<and> fst (get_all_breeds env s) = Inr breeds \<and> breeds \<noteq> []
       \<and> map_of breeds (py_lower (py_strip bi)) = None \<longrightarrow>
      fst (run env bi ti s) = Inr ()
      \<and> (\<exists>pre. stdout (snd (run env bi ti s))
                 = stdout s @ pre @ [Msg_Breed_Not_Found (py_lower (py_strip bi))])
      \<and> trace (snd (run env bi ti s)) = trace s @ [catalog_request]
      \<and> files (snd (run env bi ti s)) = files s
      \<and> results (snd (run env bi ti s)) = results s"
    using exit_absent by blast
  have 4: "py_strip ti \<noteq> [] \<and> fst (get_all_breeds env s) = Inr breeds
       \<and> map_of breeds (py_lower (py_strip bi)) = Some subs
       \<and> fst (create_folder env (YandexDiskUploader (py_strip ti))
                (''/'' @ py_lower (py_strip bi) @ ''/'') (snd (get_all_breeds env s))) = Inr False \<longrightarrow>
      fst (run env bi ti s) = Inr ()
      \<and> (\<exists>pre. stdout (snd (run env bi ti s)) = stdout s @ pre @ [Msg_Folder_Failed])
      \<and> trace (snd (run env bi ti s)) = trace s @
           [catalog_request,
            create_folder_request (YandexDiskUploader (py_strip ti))
              (''/'' @ py_lower (py_strip bi) @ ''/'')]
      \<and> files (snd (run env bi ti s)) = files s
      \<and> results (snd (run env bi ti s)) = results s"
    using exit_folder by blast
  have 5: "meth catalog_request = GET \<and> url catalog_request = BASE_URL @ ''/breeds/list/all''
     \<and> meth (create_folder_request up p) = PUT"
    by (simp add: catalog_request_def get_request_def create_folder_request_def)
  have 6: "is_RequestException e \<and> fst (breeds_api env (world s) catalog_request) = Raises e
        \<longrightarrow> fst (get_all_breeds env s) = Inr []"
    by (simp add: get_all_breeds_eq Let_def)
  show ?thesis using 1 2 3 4 5 6 by blast
qed

theorem early_exits_witness:
  "py_strip ''  '' = []
   \<and> stdout (snd (run (scripted_env (ok_body demo_catalog) (ok_body demo_image) [] Written)
         ''hound'' ''  '' (initial_state 0 Map.empty))) = [Msg_Token_Empty]
   \<and> stdout (snd (run (scripted_env (Raises Timeout) (ok_body demo_image) [] Written)
         ''hound'' ''t'' (initial_state 0 Map.empty))) = [Msg_API_Error Timeout, Msg_Breeds_Failed]
   \<and> stdout (snd (run (scripted_env (ok_body demo_catalog) (ok_body demo_image) [] Written)
         ''poodle'' ''t'' (initial_state 0 Map.empty))) = [Msg_Breed_Not_Found ''poodle'']
   \<and> fst (create_folder (scripted_env (ok_body demo_catalog) (ok_body demo_image) [Inr 500] Written)
            (YandexDiskUploader (py_strip ''t'')) (''/'' @ py_lower (py_strip ''hound'') @ ''/'')
            (snd (get_all_breeds (scripted_env (ok_body demo_catalog) (ok_body demo_image) [Inr 500] Written)
                   (initial_state 0 Map.empty)))) = Inr False
   \<and> stdout (snd (run (scripted_env (ok_body demo_catalog) (ok_body demo_image) [Inr 500] Written)
         ''hound'' ''t'' (initial_state 0 Map.empty))) = [Msg_Folder_Failed]
   \<and> map meth (trace (snd (run (scripted_env (ok_body demo_catalog) (ok_body demo_image) [Inr 500] Written)
         ''hound'' ''t'' (initial_state 0 Map.empty)))) = [GET, PUT]
   \<and> files (snd (run (scripted_env (ok_body demo_catalog) (ok_body demo_image) [Inr 500] Written)
         ''hound'' ''t'' (initial_state 0 Map.empty))) = Map.empty"
proof -
  let ?E = "scripted_env (ok_body demo_catalog) (ok_body demo_image) [Inr 500] Written"
  let ?s = "initial_state 0 Map.empty :: nat state"
  have h0: "py_strip ''  '' = []" by (simp add: py_strip_def isspace_def)
  have h1: "py_strip ''t'' \<noteq> []" by (simp add: t_input)
  have h2: "fst (get_all_breeds ?E ?s) = Inr demo_catalog"
    by (simp add: get_all_breeds_eq scripted_env_def ok_body_def initial_state_def Let_def)
  have h3: "map_of demo_catalog (py_lower (py_strip ''hound'')) = Some [''afghan'', ''blood'']"
    by (simp add: hound_input demo_catalog_def)
  have h4: "fst (create_folder ?E (YandexDiskUploader (py_strip ''t''))
              (''/'' @ py_lower (py_strip ''hound'') @ ''/'') (snd (get_all_breeds ?E ?s))) = Inr False"
    by (simp add: create_folder_eq get_all_breeds_eq scripted_env_def ok_body_def
          initial_state_def Let_def)
  have e2: "stdout (snd (run (scripted_env (Raises Timeout) (ok_body demo_image) [] Written)
         ''hound'' ''t'' (initial_state 0 Map.empty))) = [Msg_API_Error Timeout, Msg_Breeds_Failed]"
    by code_simp
  have e3: "stdout (snd (run (scripted_env (ok_body demo_catalog) (ok_body demo_image) [] Written)
         ''poodle'' ''t'' (initial_state 0 Map.empty))) = [Msg_Breed_Not_Found ''poodle'']"
    by code_simp
  have e4: "stdout (snd (run ?E ''hound'' ''t'' ?s)) = [Msg_Folder_Failed]"
    by code_simp
  have i1: "stdout (initial_state (0::nat) Map.empty) = []" "trace (initial_state (0::nat) Map.empty) = []"
    "files (initial_state (0::nat) Map.empty) = Map.empty"
    by (simp_all add: initial_state_def)
  note a = early_exits [of "''  ''" "scripted_env (ok_body demo_catalog) (ok_body demo_image) [] Written"
      "''hound''" ?s]
  note b = early_exits [of "''t''" ?E "''hound''" ?s demo_catalog "[''afghan'', ''blood'']"]
  have t1: "stdout (snd (run (scripted_env (ok_body demo_catalog) (ok_body demo_image) [] Written)
         ''hound'' ''  '' ?s)) = [Msg_Token_Empty]"
    using a h0 i1 by simp
  have t4: "map meth (trace (snd (run ?E ''hound'' ''t'' ?s))) = [GET, PUT]"
    "files (snd (run ?E ''hound'' ''t'' ?s)) = Map.empty"
    using b h1 h2 h3 h4 i1 by (simp_all add: catalog_request_def get_request_def create_folder_request_def)
  show ?thesis using h0 t1 e2 e3 h4 e4 t4 by simp
qed

lemma get_filename_accepts:
  "get_filename_from_url valid v = Inr f \<Longrightarrow> (case v of JString u \<Rightarrow> True | v \<Rightarrow> \<not> truthy v)"
  by (cases v)
     (auto simp: get_filename_from_url_def urlparse_path_of_def split: sum.splits if_splits)

lemma slot_record_invariant:
  assumes "slot_record valid folder b sb r"
  shows "record_invariant r"
proof -
  obtain f where f: "get_filename_from_url valid (image_url r) = Inr f"
    "yandex_disk_path r = stem folder b sb @ f"
    using assms by (auto simp: slot_record_def split: sum.splits)
  have st: "status r = ''uploaded'' \<or> status r = ''failed''"
    using assms by (simp add: slot_record_def)
  have "image_url r = JNull \<longrightarrow> endswith (yandex_disk_path r) FALLBACK"
    using f by (auto simp: get_filename_null endswith_append)
  then show ?thesis
    unfolding record_invariant_def using st get_filename_accepts [OF f(1)] by simp
qed

lemma list_all2_right_witness:
  "list_all2 P xs ys \<Longrightarrow> y \<in> set ys \<Longrightarrow> \<exists>x. P x y"
  unfolding list_all2_conv_all_nth in_set_conv_nth by metis

lemma main_records:
  assumes r: "r \<in> set (results (snd (main env w fs bi ti)))"
  shows "record_invariant r"
proof -
  have init: "results (initial_state w fs) = []" by (simp add: initial_state_def)
  note c = run_results [of env bi ti "initial_state w fs"]
  show ?thesis
  proof (cases "results (snd (main env w fs bi ti)) = []")
    case True
    then show ?thesis using r by simp
  next
    case False
    then obtain subs where
      "list_all2 (slot_record (netloc_valid env) (''/'' @ py_lower (py_strip bi) @ ''/'')
                  (py_lower (py_strip bi))) (None # map Some subs) (results (snd (main env w fs bi ti)))"
      using c init unfolding main_def by metis
    then obtain sb where "slot_record (netloc_valid env) (''/'' @ py_lower (py_strip bi) @ ''/'')
                  (py_lower (py_strip bi)) sb r"
      using list_all2_right_witness [OF _ r] by blast
    then show ?thesis by (rule slot_record_invariant)
  qed
qed

lemma last_snoc_record: "last (xs @ [x]) = x" by simp

lemma uploaded_neq_failed: "''uploaded'' \<noteq> ''failed''" by simp

lemma breed_slot_invariant:
  "(let r = last (results (snd (process_breed_image env b folder up t)))
    in (fst (get_breed_image env b t) = Inl e \<longrightarrow>
          image_url r = JNull \<and> status r = ''failed'' \<and> endswith (yandex_disk_path r) FALLBACK)
     \<and> (status r = ''uploaded'' \<longrightarrow>
          (\<exists>img f. fst (get_breed_image env b t) = Inr img
             \<and> get_filename_from_url (netloc_valid env) img = Inr f
             \<and> image_url r = img
             \<and> fst (upload_from_url env up img (folder @ b @ ''_'' @ f)
                      (snd (get_breed_image env b t))) = Inr True))
     \<and> (image_url r = JNull \<longleftrightarrow>
          (\<exists>e'. fst (get_breed_image env b t) = Inl e')
          \<or> (\<exists>img e'. fst (get_breed_image env b t) = Inr img
                \<and> get_filename_from_url (netloc_valid env) img = Inl e')
          \<or> fst (get_breed_image env b t) = Inr JNull))"
proof -
  obtain x t1 where g: "get_breed_image env b t = (x, t1)" by (cases "get_breed_image env b t")
  show ?thesis
  proof (cases x)
    case (Inl e')
    then show ?thesis
      unfolding process_breed_image_record Let_def last_snoc_record g
      by (simp add: endswith_def)
  next
    case (Inr img)
    show ?thesis
    proof (cases "get_filename_from_url (netloc_valid env) img")
      case (Inl e')
      then show ?thesis
        unfolding process_breed_image_record Let_def last_snoc_record g
        using Inr by (simp add: endswith_def)
    next
      case f: (Inr f)
      then show ?thesis
        unfolding process_breed_image_record Let_def last_snoc_record g
        using Inr by simp
    qed
  qed
qed

lemma sub_breed_slot_invariant:
  "(let r = last (results (snd (process_sub_breed_image env b sb folder up t)))
    in (fst (get_sub_breed_image env b sb t) = Inl e \<longrightarrow>
          image_url r = JNull \<and> status r = ''failed'' \<and> endswith (yandex_disk_path r) FALLBACK)
     \<and> (status r = ''uploaded'' \<longrightarrow>
          (\<exists>img f. fst (get_sub_breed_image env b sb t) = Inr img
             \<and> get_filename_from_url (netloc_valid env) img = Inr f
             \<and> image_url r = img
             \<and> fst (upload_from_url env up img (folder @ b @ ''_'' @ sb @ ''_'' @ f)
                      (snd (get_sub_breed_image env b sb t))) = Inr True))
     \<and> (image_url r = JNull \<longleftrightarrow>
          (\<exists>e'. fst (get_sub_breed_image env b sb t) = Inl e')
          \<or> (\<exists>img e'. fst (get_sub_breed_image env b sb t) = Inr img
                \<and> get_filename_from_url (netloc_valid env) img = Inl e')
          \<or> fst (get_sub_breed_image env b sb t) = Inr JNull))"
proof -
  obtain x t1 where g: "get_sub_breed_image env b sb t = (x, t1)"
    by (cases "get_sub_breed_image env b sb t")
  show ?thesis
  proof (cases x)
    case (Inl e')
    then show ?thesis
      unfolding process_sub_breed_image_record Let_def last_snoc_record g
      by (simp add: endswith_def)
  next
    case (Inr img)
    show ?thesis
    proof (cases "get_filename_from_url (netloc_valid env) img")
      case (Inl e')
      then show ?thesis
        unfolding process_sub_breed_image_record Let_def last_snoc_record g
        using Inr by (simp add: endswith_def)
    next
      case f: (Inr f)
      then show ?thesis
        unfolding process_sub_breed_image_record Let_def last_snoc_record g
        using Inr by simp
    qed
  qed
qed

text \<open>
  C10 (as amended). Every record of a run satisfies the record invariant: its status is
  \<open>uploaded\<close> or \<open>failed\<close>, its image URL is a string or a false JSON value, and without an
  image URL its destination path ends with the fallback file name \<open>image.jpg\<close>. For each
  image slot, of the breed and of a sub-breed alike: when the image fetch raises, the
  appended record has no image URL, status \<open>failed\<close> and a path ending with \<open>image.jpg\<close>; a
  record has status \<open>uploaded\<close> only when the fetch returned a value, the file name
  extraction accepted it and the upload returned true, and its image URL is then the
  fetched value, whatever its type; and the appended record has no image URL exactly when
  the fetch raised, or the file name extraction raised on the fetched value, or the fetched
  value was itself \<^verbatim>\<open>null\<close>.
\<close>

theorem record_invariants:
  "(r \<in> set (results (snd (main env w fs bi ti))) \<longrightarrow> record_invariant r)
   \<and> (let r = last (results (snd (process_breed_image env b folder up t)))
      in (fst (get_breed_image env b t) = Inl e \<longrightarrow>
            image_url r = JNull \<and> status r = ''failed'' \<and> endswith (yandex_disk_path r) FALLBACK)
       \<and> (status r = ''uploaded'' \<longrightarrow>
            (\<exists>img f. fst (get_breed_image env b t) = Inr img
               \<and> get_filename_from_url (netloc_valid env) img = Inr f
               \<and> image_url r = img
               \<and> fst (upload_from_url env up img (folder @ b @ ''_'' @ f)
                        (snd (get_breed_image env b t))) = Inr True))
       \<and> (image_url r = JNull \<longleftrightarrow>
            (\<exists>e'. fst (get_breed_image env b t) = Inl e')
            \<or> (\<exists>img e'. fst (get_breed_image env b t) = Inr img
                  \<and> get_filename_from_url (netloc_valid env) img = Inl e')
            \<or> fst (get_breed_image env b t) = Inr JNull))
   \<and> (let r = last (results (snd (process_sub_breed_image env b sb folder up t)))
      in (fst (get_sub_breed_image env b sb t) = Inl e \<longrightarrow>
            image_url r = JNull \<and> status r = ''failed'' \<and> endswith (yandex_disk_path r) FALLBACK)
       \<and> (status r = ''uploaded'' \<longrightarrow>
            (\<exists>img f. fst (get_sub_breed_image env b sb t) = Inr img
               \<and> get_filename_from_url (netloc_valid env) img = Inr f
               \<and> image_url r = img
               \<and> fst (upload_from_url env up img (folder @ b @ ''_'' @ sb @ ''_'' @ f)
                        (snd (get_sub_breed_image env b sb t))) = Inr True))
       \<and> (image_url r = JNull \<longleftrightarrow>
            (\<exists>e'. fst (get_sub_breed_image env b sb t) = Inl e')
            \<or> (\<exists>img e'. fst (get_sub_breed_image env b sb t) = Inr img
                  \<and> get_filename_from_url (netloc_valid env) img = Inl e')
            \<or> fst (get_sub_breed_image env b sb t) = Inr JNull))"
proof -
  have 1: "r \<in> set (results (snd (main env w fs bi ti))) \<longrightarrow> record_invariant r"
    by (rule impI) (rule main_records)
  show ?thesis
    by (rule conjI [OF 1 conjI [OF breed_slot_invariant sub_breed_slot_invariant]])
qed

theorem record_invariants_witness:
  "results (snd (main (scripted_env (ok_body demo_catalog) (Raises Timeout) [Inr 201] Written)
                   0 Map.empty ''akita'' ''t''))
     = [\<lparr>breed = ''akita'', sub_breed = None, image_url = JNull,
          yandex_disk_path = ''/akita/akita_image.jpg'', status = ''failed''\<rparr>]
   \<and> record_invariant \<lparr>breed = ''akita'', sub_breed = None, image_url = JNull,
          yandex_disk_path = ''/akita/akita_image.jpg'', status = ''failed''\<rparr>"
proof -
  let ?E = "scripted_env (ok_body demo_catalog) (Raises Timeout) [Inr 201] Written"
  let ?r = "\<lparr>breed = ''akita'', sub_breed = None, image_url = JNull,
          yandex_disk_path = ''/akita/akita_image.jpg'', status = ''failed''\<rparr>"
  have e: "results (snd (main ?E 0 Map.empty ''akita'' ''t'')) = [?r]"
    by code_simp
  have "?r \<in> set (results (snd (main ?E 0 Map.empty ''akita'' ''t''))) \<longrightarrow> record_invariant ?r"
    using record_invariants [of ?r ?E 0 Map.empty "''akita''" "''t''"] by (rule conjunct1)
  then show ?thesis using e by simp
qed

theorem null_message_uploaded:
  "results (snd (main (scripted_env (ok_body demo_catalog) (ok_body JNull) [Inr 201, Inr 202] Written)
                   0 Map.empty ''akita'' ''t''))
   = [\<lparr>breed = ''akita'', sub_breed = None, image_url = JNull,
       yandex_disk_path = ''/akita/akita_image.jpg'', status = ''uploaded''\<rparr>]"
  by code_simp

lemma timeout_policy_catalog: "timeout_policy catalog_request"
  by (simp add: timeout_policy_def catalog_request_def get_request_def)

lemma timeout_policy_folder: "timeout_policy (create_folder_request up p)"
  by (simp add: timeout_policy_def create_folder_request_def)

lemma run_trace:
  "\<exists>rqs. trace (snd (run env bi ti s)) = trace s @ rqs \<and> list_all timeout_policy rqs"
proof (cases rule: run_cases [where ti = ti and env = env and s = s and bi = bi])
  case token
  then have "trace (snd (run env bi ti s)) = trace s @ []"
    by (simp add: run_token_empty print_def)
  moreover have "list_all timeout_policy []" by simp
  ultimately show ?thesis by blast
next
  case (raises e)
  then have "trace (snd (run env bi ti s)) = trace s @ [catalog_request]"
    by (simp add: run_catalog_raises get_all_breeds_fields)
  moreover have "list_all timeout_policy [catalog_request]" by (simp add: timeout_policy_catalog)
  ultimately show ?thesis by blast
next
  case empty
  then have "trace (snd (run env bi ti s)) = trace s @ [catalog_request]"
    by (simp add: run_catalog_empty get_all_breeds_fields print_def)
  moreover have "list_all timeout_policy [catalog_request]" by (simp add: timeout_policy_catalog)
  ultimately show ?thesis by blast
next
  case (absent breeds)
  then have "trace (snd (run env bi ti s)) = trace s @ [catalog_request]"
    by (simp add: run_breed_absent get_all_breeds_fields print_def)
  moreover have "list_all timeout_policy [catalog_request]" by (simp add: timeout_policy_catalog)
  ultimately show ?thesis by blast
next
  case (folder breeds subs)
  let ?f = "create_folder_request (YandexDiskUploader (py_strip ti)) (''/'' @ py_lower (py_strip bi) @ ''/'')"
  have "trace (snd (run env bi ti s)) = trace s @ [catalog_request, ?f]"
    using folder by (simp add: run_folder_failed get_all_breeds_fields create_folder_fields print_def)
  moreover have "list_all timeout_policy [catalog_request, ?f]"
    by (simp add: timeout_policy_catalog timeout_policy_folder)
  ultimately show ?thesis by blast
next
  case (success breeds subs)
  let ?up = "YandexDiskUploader (py_strip ti)"
  let ?folder = "''/'' @ py_lower (py_strip bi) @ ''/''"
  let ?s1 = "snd (get_all_breeds env s)"
  let ?s2 = "snd (create_folder env ?up ?folder ?s1)"
  let ?f = "create_folder_request ?up ?folder"
  have c: "get_all_breeds env s = (Inr breeds, ?s1)"
    using success(2) by (simp add: prod_eq_iff)
  have f: "create_folder env ?up ?folder ?s1 = (Inr True, ?s2)"
    using success(4) by (simp add: prod_eq_iff)
  obtain rs s4 where r:
    "slots_done rs (?s2\<lparr>pbar_total := Some (total_files subs), pbar_n := 0, results := []\<rparr>) s4"
    "run env bi ti s = (Inr (), print Msg_Done (snd (save env rs ''results.json'' s4)))"
    using run_success [OF success(1) c success(3) f] by blast
  obtain rqs where q: "trace s4 = trace ?s2 @ rqs" "list_all timeout_policy rqs"
    using slots_done_fields(6) [OF r(1)] by auto
  have "trace (snd (run env bi ti s)) = trace s @ ([catalog_request, ?f] @ rqs)"
    using r(2) q(1) by (simp add: print_def save_fields get_all_breeds_fields create_folder_fields)
  moreover have "list_all timeout_policy ([catalog_request, ?f] @ rqs)"
    using q(2) by (simp add: timeout_policy_catalog timeout_policy_folder)
  ultimately show ?thesis by blast
qed

lemma get_all_breeds_raises:
  "fst (get_all_breeds env s) = Inl e \<Longrightarrow> \<not> is_RequestException e"
  unfolding get_all_breeds_eq Let_def
  by (auto split: reply.splits body.splits option.splits if_splits)

lemma run_raises:
  "fst (run env bi ti s) = Inl e \<Longrightarrow> fst (get_all_breeds env s) = Inl e \<and> \<not> is_RequestException e"
proof (cases rule: run_cases [where ti = ti and env = env and s = s and bi = bi])
  case token
  assume "fst (run env bi ti s) = Inl e"
  then show ?thesis using token by (simp add: run_token_empty)
next
  case (raises e')
  assume "fst (run env bi ti s) = Inl e"
  then have "e' = e" using raises by (simp add: run_catalog_raises)
  then show ?thesis using raises get_all_breeds_raises by blast
next
  case empty
  assume "fst (run env bi ti s) = Inl e"
  then show ?thesis using empty by (simp add: run_catalog_empty)
next
  case (absent breeds)
  assume "fst (run env bi ti s) = Inl e"
  then show ?thesis using absent by (simp add: run_breed_absent)
next
  case (folder breeds subs)
  assume "fst (run env bi ti s) = Inl e"
  then show ?thesis using folder by (simp add: run_folder_failed)
next
  case (success breeds subs)
  assume "fst (run env bi ti s) = Inl e"
  then show ?thesis using run_success_proj [OF success] by simp
qed

lemma get_image_url_transport:
  "is_RequestException e \<Longrightarrow> fst (image_api env (world s) (get_request u 10)) = Raises e \<Longrightarrow>
   fst (get_image_url env u s) = Inl (ImageRequestError e)"
  by (cases "image_api env (world s) (get_request u 10)")
     (simp add: get_image_url_def except_RequestException_def requests_get_def)

lemma process_breed_image_fst: "fst (process_breed_image env b folder up t) = Inr ()"
  using process_breed_image_slot [of t env folder b up] by auto

lemma process_sub_breed_image_fst: "fst (process_sub_breed_image env b sb folder up t) = Inr ()"
  using process_sub_breed_image_slot [of t env folder b sb up] by auto

text \<open>
  C4 (as amended). Every request a run makes carries the timeout of its kind: 10 seconds
  for the GET requests to the image service and for the folder-create PUT, 30 seconds
  for the upload POST. An error of the \<^verbatim>\<open>requests\<close> library, such as a timeout or a
  failed connection, never leaves the program: raised by the catalog request it is
  printed and \<open>get_all_breeds\<close> returns the empty catalog; raised by an image request it
  becomes the descriptive exception of \<open>get_image_url\<close>, which the image slot catches, so
  that both slot functions always return; raised by a storage request it makes
  \<open>create_folder\<close> and \<open>upload_from_url\<close> return false. The only exceptions that leave a
  run are those of the catalog fetch that are not errors of the \<^verbatim>\<open>requests\<close> library.
\<close>

theorem timeouts_and_transport_errors:
  "(\<exists>rqs. trace (snd (run env bi ti s)) = trace s @ rqs \<and> list_all timeout_policy rqs)
   \<and> timeout catalog_request = 10
   \<and> timeout (get_request u 10) = 10
   \<and> timeout (create_folder_request up p) = 10
   \<and> timeout (upload_request up img p) = 30
   \<and> (is_RequestException e \<and> fst (breeds_api env (world s) catalog_request) = Raises e \<longrightarrow>
        fst (get_all_breeds env s) = Inr []
        \<and> stdout (snd (get_all_breeds env s)) = stdout s @ [Msg_API_Error e])
   \<and> (is_RequestException e \<and> fst (image_api env (world s) (get_request u 10)) = Raises e \<longrightarrow>
        fst (get_image_url env u s) = Inl (ImageRequestError e))
   \<and> fst (process_breed_image env b folder up s) = Inr ()
   \<and> fst (process_sub_breed_image env b sb folder up s) = Inr ()
   \<and> (fst (disk_api env (world s) (create_folder_request up p)) = Inl e \<longrightarrow>
        fst (create_folder env up p s) = Inr False)
   \<and> (fst (disk_api env (world s) (upload_request up img p)) = Inl e \<longrightarrow>
        fst (upload_from_url env up img p s) = Inr False)
   \<and> (fst (run env bi ti s) = Inl e \<longrightarrow>
        fst (get_all_breeds env s) = Inl e \<and> \<not> is_RequestException e)"
proof -
  have 1: "timeout catalog_request = 10 \<and> timeout (get_request u 10) = 10
     \<and> timeout (create_folder_request up p) = 10 \<and> timeout (upload_request up img p) = 30"
    by (simp add: catalog_request_def get_request_def create_folder_request_def upload_request_def)
  have 2: "is_RequestException e \<and> fst (breeds_api env (world s) catalog_request) = Raises e \<longrightarrow>
        fst (get_all_breeds env s) = Inr []
        \<and> stdout (snd (get_all_breeds env s)) = stdout s @ [Msg_API_Error e]"
    by (simp add: get_all_breeds_eq Let_def print_def)
  have 3: "is_RequestException e \<and> fst (image_api env (world s) (get_request u 10)) = Raises e \<longrightarrow>
        fst (get_image_url env u s) = Inl (ImageRequestError e)"
    using get_image_url_transport by blast
  have 4: "fst (disk_api env (world s) (create_folder_request up p)) = Inl e \<longrightarrow>
        fst (create_folder env up p s) = Inr False"
    by (simp add: create_folder_eq)
  have 5: "fst (disk_api env (world s) (upload_request up img p)) = Inl e \<longrightarrow>
        fst (upload_from_url env up img p s) = Inr False"
    by (simp add: upload_from_url_eq Let_def)
  have 6: "fst (run env bi ti s) = Inl e \<longrightarrow>
        fst (get_all_breeds env s) = Inl e \<and> \<not> is_RequestException e"
    using run_raises by blast
  show ?thesis
    using run_trace [of env bi ti s] 1 2 3 4 5 6
      process_breed_image_fst [of env b folder up s]
      process_sub_breed_image_fst [of env b sb folder up s]
    by simp
qed

theorem timeouts_and_transport_errors_witness:
  "is_RequestException Timeout
   \<and> fst (breeds_api (scripted_env (Raises Timeout) (Raises Timeout) [] Written) 0 catalog_request)
       = Raises Timeout
   \<and> fst (get_all_breeds (scripted_env (Raises Timeout) (Raises Timeout) [] Written)
            (initial_state 0 Map.empty)) = Inr []
   \<and> fst (get_image_url (scripted_env (Raises Timeout) (Raises Timeout) [] Written)
            (BASE_URL @ ''/breed/akita/images/random'') (initial_state 0 Map.empty))
       = Inl (ImageRequestError Timeout)
   \<and> fst (upload_from_url (scripted_env (Raises Timeout) (Raises Timeout) [Inl Timeout] Written)
            (YandexDiskUploader ''t'') demo_image ''/akita/akita_x.jpg'' (initial_state 0 Map.empty))
       = Inr False
   \<and> map timeout (trace (snd (run (scripted_env (ok_body demo_catalog) (ok_body demo_image)
            [Inr 201, Inr 202] Written) ''akita'' ''t'' (initial_state 0 Map.empty)))) = [10, 10, 10, 30]"
proof -
  let ?E = "scripted_env (Raises Timeout) (Raises Timeout) [] Written"
  let ?D = "scripted_env (Raises Timeout) (Raises Timeout) [Inl Timeout] Written"
  let ?s = "initial_state 0 Map.empty :: nat state"
  have w: "world ?s = 0" by (simp add: initial_state_def)
  have h1: "is_RequestException Timeout" by simp
  have h2: "fst (breeds_api ?E 0 catalog_request) = Raises Timeout"
    by (simp add: scripted_env_def)
  have h3: "fst (image_api ?E 0 (get_request (BASE_URL @ ''/breed/akita/images/random'') 10)) = Raises Timeout"
    by (simp add: scripted_env_def)
  have h4: "fst (disk_api ?D 0 (upload_request (YandexDiskUploader ''t'') demo_image ''/akita/akita_x.jpg''))
              = Inl Timeout"
    by (simp add: scripted_env_def)
  note a = timeouts_and_transport_errors [of ?E "''akita''" "''t''" ?s
      "BASE_URL @ ''/breed/akita/images/random''" "YandexDiskUploader ''t''" "''/akita/''" demo_image Timeout]
  note d = timeouts_and_transport_errors [of ?D "''akita''" "''t''" ?s
      "BASE_URL @ ''/breed/akita/images/random''" "YandexDiskUploader ''t''" "''/akita/akita_x.jpg''"
      demo_image Timeout]
  have g: "fst (get_all_breeds ?E ?s) = Inr []" using a h1 h2 w by simp
  have i: "fst (get_image_url ?E (BASE_URL @ ''/breed/akita/images/random'') ?s)
             = Inl (ImageRequestError Timeout)"
    using a h1 h3 w by simp
  have u: "fst (upload_from_url ?D (YandexDiskUploader ''t'') demo_image ''/akita/akita_x.jpg'' ?s)
             = Inr False"
    using d h4 w by simp
  have t: "map timeout (trace (snd (run (scripted_env (ok_body demo_catalog) (ok_body demo_image)
            [Inr 201, Inr 202] Written) ''akita'' ''t'' ?s))) = [10, 10, 10, 30]"
    by code_simp
  show ?thesis using h1 h2 g i u t by simp
qed

theorem upload_timeout_is_30:
  "map timeout (trace (snd (upload_from_url
      (scripted_env (ok_body demo_catalog) (ok_body demo_image) [Inr 202] Written)
      (YandexDiskUploader ''t'') demo_image ''/akita/akita_x.jpg'' (initial_state 0 Map.empty)))) = [30]"
  by code_simp

text \<open>
  C3, at the failing input: the catalog request is answered with HTTP 200 and the body
  \<open>{"status": "error", "message": {"akita": [], "hound": ["afghan", "blood"]}}\<close>.
  \<open>get_all_breeds\<close> returns the message as the catalog and prints nothing, and the run
  for \<open>hound\<close> goes on to upload three images; the image client, given a body with the
  same status, raises.
\<close>

theorem catalog_status_ignored:
  "fst (get_all_breeds
         (scripted_env (Response 200 (Object (Some ''error'') (Some demo_catalog)))
            (ok_body demo_image) [Inr 201, Inr 202, Inr 202, Inr 202] Written)
         (initial_state 0 Map.empty)) = Inr demo_catalog
   \<and> stdout (snd (main
         (scripted_env (Response 200 (Object (Some ''error'') (Some demo_catalog)))
            (ok_body demo_image) [Inr 201, Inr 202, Inr 202, Inr 202] Written)
         0 Map.empty ''hound'' ''t'')) = [Msg_Done]
   \<and> map status (results (snd (main
         (scripted_env (Response 200 (Object (Some ''error'') (Some demo_catalog)))
            (ok_body demo_image) [Inr 201, Inr 202, Inr 202, Inr 202] Written)
         0 Map.empty ''hound'' ''t''))) = [''uploaded'', ''uploaded'', ''uploaded'']
   \<and> fst (get_image_url
         (scripted_env (ok_body demo_catalog)
            (Response 200 (Object (Some ''error'') (Some demo_image))) [] Written)
         (BASE_URL @ ''/breed/hound/images/random'') (initial_state 0 Map.empty))
       = Inl ApiStatusError"
  by code_simp

lemma takeWhile_all: "\<forall>c \<in> set xs. P c \<Longrightarrow> takeWhile P xs = xs"
  by (induction xs) auto

lemma basename_no_slash:
  assumes "CHR ''/'' \<notin> set p"
  shows "basename p = p"
proof -
  have tw: "takeWhile (\<lambda>c. c \<noteq> CHR ''/'') (rev p) = rev p"
    by (rule takeWhile_all) (use assms in auto)
  show ?thesis unfolding basename_def tw by simp
qed

lemma urlsplit_plain:
  assumes "plain_name f"
  shows "urlsplit valid f = Inr ([], [], f)"
proof -
  obtain c cs where f: "f = c # cs" using assms by (cases f) (auto simp: plain_name_def)
  have c0: "\<not> C0_CONTROL_OR_SPACE c" using assms f by (simp add: plain_name_def)
  have all: "\<forall>x \<in> set f. \<not> UNSAFE_URL_BYTE x \<and> x \<noteq> CHR ''/'' \<and> x \<noteq> CHR ''?'' \<and> x \<noteq> CHR ''#''
                \<and> x \<noteq> CHR '':'' \<and> x \<noteq> CHR '';''"
    using assms by (simp add: plain_name_def)
  have u1: "filter (\<lambda>x. \<not> UNSAFE_URL_BYTE x) (dropWhile C0_CONTROL_OR_SPACE f) = f"
    using c0 all f by (simp add: filter_id_conv)
  have "CHR '':'' \<notin> set f" using all by auto
  then have sch: "split_scheme f = ([], f)"
    by (simp add: split_scheme_def Let_def)
  have t2: "take 2 f \<noteq> ''//''" using all f by auto
  have q1: "takeWhile (\<lambda>x. x \<noteq> CHR ''#'') f = f"
    by (rule takeWhile_all) (use all in auto)
  have q2: "takeWhile (\<lambda>x. x \<noteq> CHR ''?'') f = f"
    by (rule takeWhile_all) (use all in auto)
  have q: "takeWhile (\<lambda>x. x \<noteq> CHR ''?'') (takeWhile (\<lambda>x. x \<noteq> CHR ''#'') f) = f"
    unfolding q1 q2 by (rule refl)
  show ?thesis
    unfolding urlsplit_def u1 Let_def sch using t2 q by simp
qed

lemma get_filename_plain:
  assumes "plain_name f"
  shows "get_filename_from_url valid (JString f) = Inr f"
proof -
  have a: "CHR '';'' \<notin> set f" "CHR ''/'' \<notin> set f" "f \<noteq> []" "CHR ''.'' \<in> set f"
    using assms by (auto simp: plain_name_def)
  have "urlparse_path valid f = Inr f"
    unfolding urlparse_path_def urlsplit_plain [OF assms] using a by simp
  then show ?thesis
    unfolding get_filename_from_url_def urlparse_path_of_def
    using a by (simp add: basename_no_slash)
qed

end
